theory Spec2Isabelle
  imports Main "HOL-Library.AList"
begin

section \<open>The resumable-upload manager of AWSS3UploadManager.ts\<close>

text \<open>
  The theory embeds the class \<^verbatim>\<open>AWSS3UploadManager\<close>. Its state is the item stored
  under \<^verbatim>\<open>UPLOADS_STORAGE_KEY\<close>, the table \<^verbatim>\<open>_uploadTasks\<close>, the listeners it has put
  on event emitters, and a trace of the effects it has had on its collaborators (commands
  sent to the S3 client, calls of \<^verbatim>\<open>setItem\<close>). Every method returns the state it leaves
  behind together with either its value or the error it throws, because what a method did
  before it threw stays done.
\<close>

subsection \<open>Data\<close>

type_synonym UploadId = string

text \<open>
  Modelled from the spec: the declaration of \<^verbatim>\<open>StorageLevel\<close> (\<^verbatim>\<open>../types/Storage\<close>) is not
  part of the sources at hand; the manager only copies an access level into the record it
  stores, so the level is carried as an opaque string.
\<close>

type_synonym StorageLevel = string

text \<open>
  The payload of a request is a \<^verbatim>\<open>Blob\<close>, which may be a \<^verbatim>\<open>File\<close>. Only the properties that
  the manager reads are kept: name and lastModified (a signed integer number of
  milliseconds) of a File, and size (a byte count) and type of both.
\<close>

datatype blob =
    File string int nat string
  | Blob nat string

datatype TaskEvents = ABORT | UPLOAD_COMPLETE | UPLOAD_PROGRESS

datatype error =
    SyntaxError
  | TypeError
  | RemoteError string

text \<open>
  The record kept per upload. The interface \<^verbatim>\<open>FileMetadata\<close> declares every property, but
  the code itself treats three of them as possibly absent: it tests for \<^verbatim>\<open>lastTouched\<close> and
  \<^verbatim>\<open>timeStarted\<close> with \<^verbatim>\<open>hasOwnProperty\<close>, and writes \<^verbatim>\<open>fileName\<close> only for a File.
\<close>

record FileMetadata =
  accessLevel :: StorageLevel
  bucket :: string
  fileName :: "string option"
  key :: string
  lastTouched :: "int option"
  timeStarted :: "int option"
  uploadId :: UploadId

type_synonym uploads = "(string \<times> FileMetadata) list"

text \<open>
  What \<^verbatim>\<open>getItem(UPLOADS_STORAGE_KEY)\<close> returns, seen through \<^verbatim>\<open>JSON.parse\<close>: nothing
  (\<^verbatim>\<open>null\<close>), a non-empty string that is not JSON, or the serialisation of an object whose
  properties, in insertion order, are upload records. Strings that hold other JSON values
  are not represented.
\<close>

datatype stored =
    NoItem
  | Malformed
  | Serialized uploads

definition oneHourInMs :: int where
  "oneHourInMs = 1000 * 60 * 60"

subsection \<open>Fingerprints\<close>

text \<open>
  \<^verbatim>\<open>Array.prototype.join\<close> turns every element into a string and puts the separator
  between neighbours. The numbers joined here are integers, printed in decimal.
\<close>

definition digit_char :: "nat \<Rightarrow> char" where
  "digit_char d = ''0123456789'' ! d"

fun show_nat :: "nat \<Rightarrow> string" where
  "show_nat n = (if n < 10 then [digit_char n] else show_nat (n div 10) @ [digit_char (n mod 10)])"

declare show_nat.simps [simp del]

definition show_int :: "int \<Rightarrow> string" where
  "show_int i = (if i < 0 then CHR ''-'' # show_nat (nat (- i)) else show_nat (nat i))"

fun join :: "string \<Rightarrow> string list \<Rightarrow> string" where
  "join sep [] = []"
| "join sep [x] = x"
| "join sep (x # y # ys) = x @ sep @ join sep (y # ys)"

fun isFile :: "blob \<Rightarrow> bool" where
  "isFile (File n m s t) = True"
| "isFile (Blob s t) = False"

text \<open>A File is also an instance of Blob.\<close>

fun isBlob :: "blob \<Rightarrow> bool" where
  "isBlob b = True"

text \<open>
  \<^verbatim>\<open>_getFileKey\<close>. Its last branch, the empty string for a value that is neither a File
  nor a Blob, cannot be reached from a value of the parameter's type.
\<close>

fun getFileKey :: "blob \<Rightarrow> string \<Rightarrow> string \<Rightarrow> string" where
  "getFileKey (File n m s t) bkt k =
     join ''-'' [n, show_int m, show_nat s, t, bkt, k]"
| "getFileKey (Blob s t) bkt k =
     join ''-'' [show_nat s, t, bkt, k]"

subsection \<open>Collaborators\<close>

text \<open>
  The commands the manager sends to the S3 client, with the parameters it gives them
  (Bucket, Key and, for two of them, UploadId).
\<close>

datatype command =
    ListPartsCommand string string UploadId
  | CreateMultipartUploadCommand string string
  | AbortMultipartUploadCommand string string UploadId

datatype effect =
    Sent command
  | SetItem stored

text \<open>
  Modelled from the spec: the SDK's declarations are not part of the sources at hand. A part
  is what list-parts reports about one chunk (part number, size, checksum). Of the output of
  list-parts the manager reads \<^verbatim>\<open>UploadId\<close> and \<^verbatim>\<open>Parts\<close>, each of which the output may lack;
  of the output of create-multipart-upload it reads \<^verbatim>\<open>UploadId\<close>.
\<close>

datatype Part = Part nat nat string

record ListPartsCommandOutput =
  UploadId :: "UploadId option"
  Parts :: "Part list option"

text \<open>
  An S3 client is given by how its \<^verbatim>\<open>send\<close> settles the promise of a list-parts and of a
  create-multipart-upload command: rejected with an error (\<open>Inl\<close>) or fulfilled with an
  output. How it settles an abort does not enter: the manager never waits for it.
\<close>

record S3Client =
  listParts :: "string \<times> string \<times> UploadId \<Rightarrow> error + ListPartsCommandOutput"
  createMultipartUpload :: "string \<times> string \<Rightarrow> error + UploadId"

text \<open>An event emitter is an object with identity; the state holds its listeners.\<close>

type_synonym emitter = nat

text \<open>The one kind of listener the manager installs: \<^verbatim>\<open>() => { this._removeKey(fileKey) }\<close>.\<close>

datatype listener = RemoveKeyListener string

record AddTaskInput =
  in_accessLevel :: StorageLevel
  in_file :: blob
  in_bucket :: string
  in_emitter :: "emitter option"
  in_key :: string
  in_s3Client :: S3Client

text \<open>
  Modelled from the spec: the class \<^verbatim>\<open>AWSS3UploadTask\<close> is not part of the sources at hand.
  A task is what its constructor is given: the client, the session id, the destination, the
  file, the parts already uploaded (absent for a fresh task) and the emitter.
\<close>

record AWSS3UploadTask =
  task_s3Client :: S3Client
  task_uploadId :: UploadId
  task_bucket :: string
  task_key :: string
  task_file :: blob
  task_completedParts :: "Part list option"
  task_emitter :: "emitter option"

record manager =
  storage :: stored
  uploadTasks :: "UploadId \<rightharpoonup> AWSS3UploadTask"
  listeners :: "emitter \<Rightarrow> (TaskEvents \<times> listener) list"
  trace :: "effect list"

definition getItem :: "manager \<Rightarrow> stored" where
  "getItem st = storage st"

definition setItem :: "stored \<Rightarrow> manager \<Rightarrow> manager" where
  "setItem v st = st\<lparr>storage := v, trace := trace st @ [SetItem v]\<rparr>"

definition send :: "command \<Rightarrow> manager \<Rightarrow> manager" where
  "send c st = st\<lparr>trace := trace st @ [Sent c]\<rparr>"

definition emitter_on :: "emitter \<Rightarrow> TaskEvents \<Rightarrow> listener \<Rightarrow> manager \<Rightarrow> manager" where
  "emitter_on em ev l st = st\<lparr>listeners := (listeners st)(em := listeners st em @ [(ev, l)])\<rparr>"

text \<open>
  \<^verbatim>\<open>JSON.parse\<close> of what \<^verbatim>\<open>getItem\<close> returned: \<^verbatim>\<open>null\<close> parses to \<^verbatim>\<open>null\<close>, a string that is
  not JSON throws a SyntaxError. \<^verbatim>\<open>JSON.stringify\<close> of an object of records gives the string
  that parses back to it.
\<close>

fun JSON_parse :: "stored \<Rightarrow> error + uploads option" where
  "JSON_parse NoItem = Inr None"
| "JSON_parse Malformed = Inl SyntaxError"
| "JSON_parse (Serialized u) = Inr (Some u)"

definition JSON_stringify :: "uploads \<Rightarrow> stored" where
  "JSON_stringify u = Serialized u"

text \<open>The idiom \<^verbatim>\<open>JSON.parse(...) || {}\<close>.\<close>

fun orEmpty :: "uploads option \<Rightarrow> uploads" where
  "orEmpty None = []"
| "orEmpty (Some u) = u"

subsection \<open>The methods\<close>

text \<open>
  \<^verbatim>\<open>Date.now()\<close> is the parameter \<open>now\<close>: the readings of the clock taken while one
  request is processed are taken to be equal.
\<close>

text \<open>
  \<^verbatim>\<open>_getCachedUploadParts\<close>. The result \<open>Inr None\<close> stands for \<^verbatim>\<open>null\<close> and for falling off
  the end of the function (\<^verbatim>\<open>undefined\<close>), which the caller does not tell apart. The record
  found is an object, hence truthy. The assignment to \<^verbatim>\<open>lastTouched\<close> changes the record
  inside \<^verbatim>\<open>uploads\<close>, which is then stored, before the command is sent.
\<close>

definition getCachedUploadParts ::
  "S3Client \<Rightarrow> string \<Rightarrow> string \<Rightarrow> blob \<Rightarrow> int \<Rightarrow> manager
     \<Rightarrow> (error + ListPartsCommandOutput option) \<times> manager" where
  "getCachedUploadParts s3client bkt k file now st =
     (case getItem st of
        NoItem \<Rightarrow> (Inr None, st)
      | uploadsFromStorage \<Rightarrow>
          (case JSON_parse uploadsFromStorage of
             Inl e \<Rightarrow> (Inl e, st)
           | Inr parsed \<Rightarrow>
               let uploads = orEmpty parsed;
                   fileKey = getFileKey file bkt k
               in (case map_of uploads fileKey of
                     None \<Rightarrow> (Inr None, st)
                   | Some cachedUploadFileData \<Rightarrow>
                       let hasExpired =
                             (case lastTouched cachedUploadFileData of
                                None \<Rightarrow> False
                              | Some t \<Rightarrow> now - t > oneHourInMs)
                       in if \<not> hasExpired then
                            let touched = cachedUploadFileData\<lparr>lastTouched := Some now\<rparr>;
                                st1 = setItem (JSON_stringify (AList.update fileKey touched uploads)) st;
                                st2 = send (ListPartsCommand bkt k (uploadId touched)) st1
                            in (case listParts s3client (bkt, k, uploadId touched) of
                                  Inl e \<Rightarrow> (Inl e, st2)
                                | Inr listPartsOutput \<Rightarrow> (Inr (Some listPartsOutput), st2))
                          else (Inr None, st))))"

text \<open>
  The loop of \<^verbatim>\<open>_purgeExpiredKeys\<close> over \<^verbatim>\<open>Object.entries(uploads)\<close>. For an expired entry
  it sends the abort and attaches \<^verbatim>\<open>delete uploads[k]\<close> to the promise; the loop returns the
  keys with such a continuation pending. A continuation of a promise runs only after the
  code that attached it has run to its end, so none runs during the loop or before the
  \<^verbatim>\<open>setItem\<close> that follows it.
\<close>

fun purgeLoop :: "int \<Rightarrow> int \<Rightarrow> uploads \<Rightarrow> manager \<Rightarrow> string list \<times> manager" where
  "purgeLoop ttl now [] st = ([], st)"
| "purgeLoop ttl now ((k, upload) # rest) st =
     (let hasExpired =
            (case timeStarted upload of
               None \<Rightarrow> False
             | Some t \<Rightarrow> now - t > ttl)
      in if hasExpired then
           let st1 = send (AbortMultipartUploadCommand (bucket upload) (key upload) (uploadId upload)) st;
               (pending, st2) = purgeLoop ttl now rest st1
           in (k # pending, st2)
         else purgeLoop ttl now rest st)"

text \<open>
  \<^verbatim>\<open>_purgeExpiredKeys\<close>, with the optional \<^verbatim>\<open>ttl\<close> defaulting to one hour. What it stores is
  \<^verbatim>\<open>uploads\<close> as parsed: the pending deletions act, later, on an object that is not stored
  again. It returns the keys whose deletion is pending.
\<close>

definition purgeExpiredKeys ::
  "S3Client \<Rightarrow> int option \<Rightarrow> int \<Rightarrow> manager \<Rightarrow> (error + string list) \<times> manager" where
  "purgeExpiredKeys s3 ttl_opt now st =
     (let ttl = (case ttl_opt of None \<Rightarrow> oneHourInMs | Some t \<Rightarrow> t)
      in case JSON_parse (getItem st) of
           Inl e \<Rightarrow> (Inl e, st)
         | Inr parsed \<Rightarrow>
             let uploads = orEmpty parsed;
                 (pending, st1) = purgeLoop ttl now uploads st
             in (Inr pending, setItem (JSON_stringify uploads) st1))"

definition removeKey :: "string \<Rightarrow> manager \<Rightarrow> (error + unit) \<times> manager" where
  "removeKey k st =
     (case JSON_parse (getItem st) of
        Inl e \<Rightarrow> (Inl e, st)
      | Inr parsed \<Rightarrow>
          (Inr (), setItem (JSON_stringify (AList.delete k (orEmpty parsed))) st))"

definition addKey :: "string \<Rightarrow> FileMetadata \<Rightarrow> manager \<Rightarrow> (error + unit) \<times> manager" where
  "addKey k fileMetadata st =
     (case JSON_parse (getItem st) of
        Inl e \<Rightarrow> (Inl e, st)
      | Inr parsed \<Rightarrow>
          (Inr (), setItem (JSON_stringify (AList.update k fileMetadata (orEmpty parsed))) st))"

definition isListPartsOutput :: "ListPartsCommandOutput option \<Rightarrow> bool" where
  "isListPartsOutput x =
     (case x of
        None \<Rightarrow> False
      | Some out \<Rightarrow> UploadId out \<noteq> None \<and> Parts out \<noteq> None)"

fun file_name :: "blob \<Rightarrow> string option" where
  "file_name (File n m s t) = Some n"
| "file_name (Blob s t) = None"

definition initMultiupload ::
  "AddTaskInput \<Rightarrow> int \<Rightarrow> manager \<Rightarrow> (error + AWSS3UploadTask) \<times> manager" where
  "initMultiupload input now st =
     (let fileKey = getFileKey (in_file input) (in_bucket input) (in_key input);
          st1 = send (CreateMultipartUploadCommand (in_bucket input) (in_key input)) st
      in case createMultipartUpload (in_s3Client input) (in_bucket input, in_key input) of
           Inl e \<Rightarrow> (Inl e, st1)
         | Inr newId \<Rightarrow>
             let newTask =
                   \<lparr>task_s3Client = in_s3Client input, task_uploadId = newId,
                    task_bucket = in_bucket input, task_key = in_key input,
                    task_file = in_file input, task_completedParts = None,
                    task_emitter = in_emitter input\<rparr>;
                 st2 = st1\<lparr>uploadTasks := (uploadTasks st1)(newId \<mapsto> newTask)\<rparr>;
                 fileMetadata =
                   \<lparr>accessLevel = in_accessLevel input, bucket = in_bucket input,
                    fileName = (if isFile (in_file input) then file_name (in_file input) else None),
                    key = in_key input, lastTouched = Some now, timeStarted = Some now,
                    uploadId = newId\<rparr>
             in (case addKey fileKey fileMetadata st2 of
                   (Inl e, st3) \<Rightarrow> (Inl e, st3)
                 | (Inr u, st3) \<Rightarrow> (Inr newTask, st3)))"

text \<open>
  \<^verbatim>\<open>addTask\<close>. Only the lookup stands inside \<^verbatim>\<open>try\<close>: an error of the lookup is logged
  and leaves \<^verbatim>\<open>cachedUpload\<close> at \<^verbatim>\<open>{}\<close> (\<open>None\<close> here, as for a lookup that found nothing).
  The emitter is optional in \<^verbatim>\<open>AddTaskInput\<close>; \<^verbatim>\<open>emitter.on\<close> of an absent one throws a
  TypeError.
\<close>

definition addTask ::
  "AddTaskInput \<Rightarrow> int \<Rightarrow> manager \<Rightarrow> (error + AWSS3UploadTask) \<times> manager" where
  "addTask input now st =
     (case purgeExpiredKeys (in_s3Client input) None now st of
        (Inl e, st1) \<Rightarrow> (Inl e, st1)
      | (Inr pending, st1) \<Rightarrow>
          let (found, st2) =
                getCachedUploadParts (in_s3Client input) (in_bucket input) (in_key input)
                  (in_file input) now st1;
              cachedUpload = (case found of Inl err \<Rightarrow> None | Inr r \<Rightarrow> r);
              fileKey = getFileKey (in_file input) (in_bucket input) (in_key input)
          in (case in_emitter input of
                None \<Rightarrow> (Inl TypeError, st2)
              | Some em \<Rightarrow>
                  let st3 = emitter_on em UPLOAD_COMPLETE (RemoveKeyListener fileKey) st2;
                      st4 = emitter_on em ABORT (RemoveKeyListener fileKey) st3
                  in if isListPartsOutput cachedUpload then
                       let cachedUploadId = the (UploadId (the cachedUpload));
                           task =
                             \<lparr>task_s3Client = in_s3Client input, task_uploadId = cachedUploadId,
                              task_bucket = in_bucket input, task_key = in_key input,
                              task_file = in_file input,
                              task_completedParts = Parts (the cachedUpload),
                              task_emitter = in_emitter input\<rparr>
                       in (Inr task, st4\<lparr>uploadTasks := (uploadTasks st4)(cachedUploadId \<mapsto> task)\<rparr>)
                     else initMultiupload input now st4))"

definition getTask :: "UploadId \<Rightarrow> manager \<Rightarrow> AWSS3UploadTask option" where
  "getTask uid st = uploadTasks st uid"

subsection \<open>Notifications and histories\<close>

text \<open>
  Emitting an event calls the listeners registered for it on that emitter, in the order of
  their registration; a listener that throws ends the emission with its error.
\<close>

fun runListeners :: "listener list \<Rightarrow> manager \<Rightarrow> (error + unit) \<times> manager" where
  "runListeners [] st = (Inr (), st)"
| "runListeners (RemoveKeyListener k # ls) st =
     (case removeKey k st of
        (Inl e, st1) \<Rightarrow> (Inl e, st1)
      | (Inr u, st1) \<Rightarrow> runListeners ls st1)"

definition emit :: "emitter \<Rightarrow> TaskEvents \<Rightarrow> manager \<Rightarrow> (error + unit) \<times> manager" where
  "emit em ev st = runListeners (map snd (filter (\<lambda>p. fst p = ev) (listeners st em))) st"

text \<open>
  What can happen to a manager during its lifetime: a request, a lookup by session id, a
  notification on some emitter.
\<close>

datatype operation =
    AddTask AddTaskInput int
  | GetTask UploadId
  | Notify emitter TaskEvents

fun perform :: "operation \<Rightarrow> manager \<Rightarrow> manager" where
  "perform (AddTask input now) st = snd (addTask input now st)"
| "perform (GetTask uid) st = st"
| "perform (Notify em ev) st = snd (emit em ev st)"

fun performAll :: "operation list \<Rightarrow> manager \<Rightarrow> manager" where
  "performAll [] st = st"
| "performAll (op # ops) st = performAll ops (perform op st)"

text \<open>The manager as its constructor leaves it, over a storage holding \<open>s\<close>.\<close>

definition newManager :: "stored \<Rightarrow> manager" where
  "newManager s = \<lparr>storage = s, uploadTasks = Map.empty, listeners = (\<lambda>em. []), trace = []\<rparr>"

text \<open>The registry held by a storage item that parses.\<close>

definition registry :: "stored \<Rightarrow> uploads" where
  "registry s = (case JSON_parse s of Inl e \<Rightarrow> [] | Inr parsed \<Rightarrow> orEmpty parsed)"

subsection \<open>Vocabulary of the properties\<close>

text \<open>The fingerprint of a request.\<close>

definition fingerprint :: "AddTaskInput \<Rightarrow> string" where
  "fingerprint input = getFileKey (in_file input) (in_bucket input) (in_key input)"

text \<open>The time-to-live a garbage-collection pass works with.\<close>

definition ttlOf :: "int option \<Rightarrow> int" where
  "ttlOf ttl_opt = (case ttl_opt of None \<Rightarrow> oneHourInMs | Some t \<Rightarrow> t)"

text \<open>
  A record is expired for garbage collection when it has a session-start timestamp and
  its age by that timestamp exceeds the time-to-live.
\<close>

definition gcExpired :: "int \<Rightarrow> int \<Rightarrow> FileMetadata \<Rightarrow> bool" where
  "gcExpired ttl now upload = (case timeStarted upload of None \<Rightarrow> False | Some t \<Rightarrow> now - t > ttl)"

definition expiredEntries :: "int \<Rightarrow> int \<Rightarrow> uploads \<Rightarrow> uploads" where
  "expiredEntries ttl now u = filter (\<lambda>p. gcExpired ttl now (snd p)) u"

text \<open>The abort of a record's session.\<close>

definition abortOf :: "FileMetadata \<Rightarrow> command" where
  "abortOf upload = AbortMultipartUploadCommand (bucket upload) (key upload) (uploadId upload)"

text \<open>The effects of one garbage-collection pass over a registry.\<close>

definition gcEffects :: "int \<Rightarrow> int \<Rightarrow> uploads \<Rightarrow> effect list" where
  "gcEffects ttl now u =
     map (\<lambda>p. Sent (abortOf (snd p))) (expiredEntries ttl now u) @ [SetItem (Serialized u)]"

text \<open>The state a pass leaves behind when the stored item parses.\<close>

definition afterPurge :: "int \<Rightarrow> manager \<Rightarrow> manager" where
  "afterPurge now st =
     st\<lparr>storage := Serialized (registry (storage st)),
        trace := trace st @ gcEffects oneHourInMs now (registry (storage st))\<rparr>"

text \<open>The commands among some effects, and the items stored by them, in order.\<close>

fun commandsSent :: "effect list \<Rightarrow> command list" where
  "commandsSent [] = []"
| "commandsSent (Sent c # es) = c # commandsSent es"
| "commandsSent (SetItem v # es) = commandsSent es"

fun itemsSet :: "effect list \<Rightarrow> stored list" where
  "itemsSet [] = []"
| "itemsSet (Sent c # es) = itemsSet es"
| "itemsSet (SetItem v # es) = v # itemsSet es"

text \<open>The effects a step from \<open>st\<close> to \<open>st'\<close> has added to the trace.\<close>

definition newEffects :: "manager \<Rightarrow> manager \<Rightarrow> effect list" where
  "newEffects st st' = drop (length (trace st)) (trace st')"

text \<open>A record with its last-touched timestamp refreshed.\<close>

definition touch :: "int \<Rightarrow> FileMetadata \<Rightarrow> FileMetadata" where
  "touch now r = r\<lparr>lastTouched := Some now\<rparr>"

text \<open>The two subscriptions of a request.\<close>

definition subscribed :: "emitter \<Rightarrow> string \<Rightarrow> manager \<Rightarrow> manager" where
  "subscribed em fk st =
     emitter_on em ABORT (RemoveKeyListener fk)
       (emitter_on em UPLOAD_COMPLETE (RemoveKeyListener fk) st)"

text \<open>The task of a resumed session, the task of a new one, and the record of a new one.\<close>

definition resumedTask :: "AddTaskInput \<Rightarrow> UploadId \<Rightarrow> Part list \<Rightarrow> AWSS3UploadTask" where
  "resumedTask input uid parts =
     \<lparr>task_s3Client = in_s3Client input, task_uploadId = uid,
      task_bucket = in_bucket input, task_key = in_key input,
      task_file = in_file input, task_completedParts = Some parts,
      task_emitter = in_emitter input\<rparr>"

definition freshTask :: "AddTaskInput \<Rightarrow> UploadId \<Rightarrow> AWSS3UploadTask" where
  "freshTask input uid =
     \<lparr>task_s3Client = in_s3Client input, task_uploadId = uid,
      task_bucket = in_bucket input, task_key = in_key input,
      task_file = in_file input, task_completedParts = None,
      task_emitter = in_emitter input\<rparr>"

definition freshRecord :: "AddTaskInput \<Rightarrow> int \<Rightarrow> UploadId \<Rightarrow> FileMetadata" where
  "freshRecord input now uid =
     \<lparr>accessLevel = in_accessLevel input, bucket = in_bucket input,
      fileName = file_name (in_file input), key = in_key input,
      lastTouched = Some now, timeStarted = Some now, uploadId = uid\<rparr>"

fun listenerKey :: "listener \<Rightarrow> string" where
  "listenerKey (RemoveKeyListener k) = k"

subsection \<open>A scenario\<close>

text \<open>
  The file of the scenario: name a.png, last modified at 100, 10 bytes, type image/png,
  uploaded to bucket b under key k at access level public, with an emitter. A client is
  given by the way it settles list-parts and create-multipart-upload.
\<close>

definition exFile :: blob where
  "exFile = File ''a.png'' 100 10 ''image/png''"

definition exClient :: "error + ListPartsCommandOutput \<Rightarrow> error + UploadId \<Rightarrow> S3Client" where
  "exClient lp cr = \<lparr>listParts = (\<lambda>q. lp), createMultipartUpload = (\<lambda>q. cr)\<rparr>"

text \<open>A client that reports session S1 with no parts yet, and opens session S2.\<close>

definition exHealthy :: S3Client where
  "exHealthy = exClient (Inr \<lparr>UploadId = Some ''S1'', Parts = Some []\<rparr>) (Inr ''S2'')"

text \<open>
  A client that opens session S1 and, asked for its parts, reports one part of 5 bytes.
\<close>

definition exResuming :: S3Client where
  "exResuming = exClient (Inr \<lparr>UploadId = Some ''S1'', Parts = Some [Part 1 5 ''e'']\<rparr>) (Inr ''S1'')"

definition exRequest :: "S3Client \<Rightarrow> AddTaskInput" where
  "exRequest c =
     \<lparr>in_accessLevel = ''public'', in_file = exFile, in_bucket = ''b'', in_emitter = Some 0,
      in_key = ''k'', in_s3Client = c\<rparr>"

definition exKey :: string where
  "exKey = ''a.png-100-10-image/png-b-k''"

text \<open>A record of session S1 for that file, with the two timestamps as given.\<close>

definition exRecord :: "int option \<Rightarrow> int option \<Rightarrow> FileMetadata" where
  "exRecord started touched =
     \<lparr>accessLevel = ''public'', bucket = ''b'', fileName = Some ''a.png'', key = ''k'',
      lastTouched = touched, timeStarted = started, uploadId = ''S1''\<rparr>"

subsection \<open>Decimal numerals are unambiguous\<close>










subsection \<open>The methods, case by case\<close>

lemma registry_simps [simp]:
  "registry NoItem = []" "registry Malformed = []" "registry (Serialized u) = u"
  by (simp_all add: registry_def)

lemma ttlOf_None [simp]: "ttlOf None = oneHourInMs"
  by (simp add: ttlOf_def)

lemma file_name_isFile: "(if isFile f then file_name f else None) = file_name f"
  by (cases f) simp_all

lemma purgeLoop_eq:
  "purgeLoop ttl now u st =
     (map fst (expiredEntries ttl now u),
      st\<lparr>trace := trace st @ map (\<lambda>p. Sent (abortOf (snd p))) (expiredEntries ttl now u)\<rparr>)"
  by (induction u arbitrary: st)
     (auto simp: send_def expiredEntries_def gcExpired_def abortOf_def split: option.splits)

lemma purgeExpiredKeys_parsed:
  assumes "storage st \<noteq> Malformed"
  shows "purgeExpiredKeys s3 ttl_opt now st =
     (Inr (map fst (expiredEntries (ttlOf ttl_opt) now (registry (storage st)))),
      st\<lparr>storage := Serialized (registry (storage st)),
         trace := trace st @ gcEffects (ttlOf ttl_opt) now (registry (storage st))\<rparr>)"
  using assms
  by (cases "storage st")
     (simp_all add: purgeExpiredKeys_def getItem_def setItem_def JSON_stringify_def
        purgeLoop_eq gcEffects_def ttlOf_def expiredEntries_def split: option.splits)

lemma purgeExpiredKeys_Malformed:
  "storage st = Malformed \<Longrightarrow> purgeExpiredKeys s3 ttl_opt now st = (Inl SyntaxError, st)"
  by (simp add: purgeExpiredKeys_def getItem_def)

lemma lookup_absent:
  "storage st = Serialized u \<Longrightarrow> map_of u (getFileKey file bkt k) = None \<Longrightarrow>
   getCachedUploadParts s3 bkt k file now st = (Inr None, st)"
  by (simp add: getCachedUploadParts_def getItem_def)

lemma lookup_stale:
  "storage st = Serialized u \<Longrightarrow> map_of u (getFileKey file bkt k) = Some r \<Longrightarrow>
   lastTouched r = Some t \<Longrightarrow> now - t > oneHourInMs \<Longrightarrow>
   getCachedUploadParts s3 bkt k file now st = (Inr None, st)"
  by (simp add: getCachedUploadParts_def getItem_def)

lemma lookup_fresh:
  "storage st = Serialized u \<Longrightarrow> map_of u (getFileKey file bkt k) = Some r \<Longrightarrow>
   (case lastTouched r of None \<Rightarrow> True | Some t \<Rightarrow> now - t \<le> oneHourInMs) \<Longrightarrow>
   getCachedUploadParts s3 bkt k file now st =
     (map_sum id Some (listParts s3 (bkt, k, uploadId r)),
      st\<lparr>storage := Serialized (AList.update (getFileKey file bkt k) (touch now r) u),
         trace := trace st @
           [SetItem (Serialized (AList.update (getFileKey file bkt k) (touch now r) u)),
            Sent (ListPartsCommand bkt k (uploadId r))]\<rparr>)"
  by (simp add: getCachedUploadParts_def getItem_def setItem_def send_def JSON_stringify_def
      touch_def Let_def split: option.splits sum.splits)

lemma initMultiupload_ok:
  assumes "createMultipartUpload (in_s3Client input) (in_bucket input, in_key input) = Inr uid"
    and "storage st \<noteq> Malformed"
  shows "initMultiupload input now st =
    (Inr (freshTask input uid),
     st\<lparr>storage := Serialized
          (AList.update (fingerprint input) (freshRecord input now uid) (registry (storage st))),
        uploadTasks := (uploadTasks st)(uid \<mapsto> freshTask input uid),
        trace := trace st @
          [Sent (CreateMultipartUploadCommand (in_bucket input) (in_key input)),
           SetItem (Serialized
             (AList.update (fingerprint input) (freshRecord input now uid)
               (registry (storage st))))]\<rparr>)"
  using assms
  by (cases "storage st")
     (simp_all add: initMultiupload_def addKey_def getItem_def setItem_def send_def
        JSON_stringify_def Let_def freshTask_def freshRecord_def fingerprint_def file_name_isFile)

lemma initMultiupload_rejected:
  assumes "createMultipartUpload (in_s3Client input) (in_bucket input, in_key input) = Inl e"
  shows "initMultiupload input now st =
    (Inl e,
     st\<lparr>trace := trace st @
       [Sent (CreateMultipartUploadCommand (in_bucket input) (in_key input))]\<rparr>)"
  using assms by (simp add: initMultiupload_def send_def Let_def)

lemma addTask_Malformed:
  "storage st = Malformed \<Longrightarrow> addTask input now st = (Inl SyntaxError, st)"
  by (simp add: addTask_def purgeExpiredKeys_Malformed)

text \<open>A request over a stored item that parses, after its garbage-collection pass.\<close>

lemma addTask_unfold:
  assumes "storage st \<noteq> Malformed"
  shows "addTask input now st =
     (let found = getCachedUploadParts (in_s3Client input) (in_bucket input) (in_key input)
                  (in_file input) now (afterPurge now st);
          cachedUpload = (case fst found of Inl err \<Rightarrow> None | Inr r \<Rightarrow> r)
      in case in_emitter input of
           None \<Rightarrow> (Inl TypeError, snd found)
         | Some em \<Rightarrow>
             if isListPartsOutput cachedUpload then
               (Inr (resumedTask input (the (UploadId (the cachedUpload)))
                      (the (Parts (the cachedUpload)))),
                (subscribed em (fingerprint input) (snd found))
                  \<lparr>uploadTasks := (uploadTasks (snd found))
                     (the (UploadId (the cachedUpload)) \<mapsto>
                        resumedTask input (the (UploadId (the cachedUpload)))
                          (the (Parts (the cachedUpload))))\<rparr>)
             else initMultiupload input now (subscribed em (fingerprint input) (snd found)))"
  using assms
  by (auto simp add: addTask_def purgeExpiredKeys_parsed afterPurge_def Let_def subscribed_def
        fingerprint_def resumedTask_def emitter_on_def isListPartsOutput_def
        split: prod.splits option.splits)

lemma newEffects_append [simp]: "trace st' = trace st @ es \<Longrightarrow> newEffects st st' = es"
  by (simp add: newEffects_def)

lemma commandsSent_append [simp]: "commandsSent (xs @ ys) = commandsSent xs @ commandsSent ys"
  by (induction xs rule: commandsSent.induct) simp_all

lemma itemsSet_append [simp]: "itemsSet (xs @ ys) = itemsSet xs @ itemsSet ys"
  by (induction xs rule: itemsSet.induct) simp_all

lemma commandsSent_aborts [simp]:
  "commandsSent (map (\<lambda>p. Sent (abortOf (snd p))) es) = map (\<lambda>p. abortOf (snd p)) es"
  by (induction es) simp_all

lemma itemsSet_aborts [simp]: "itemsSet (map (\<lambda>p. Sent (abortOf (snd p))) es) = []"
  by (induction es) simp_all

lemma commandsSent_gcEffects:
  "commandsSent (gcEffects ttl now u) = map (\<lambda>p. abortOf (snd p)) (expiredEntries ttl now u)"
  by (simp add: gcEffects_def)

lemma itemsSet_gcEffects: "itemsSet (gcEffects ttl now u) = [Serialized u]"
  by (simp add: gcEffects_def)

lemma gcExpired_iff: "gcExpired ttl now r \<longleftrightarrow> (\<exists>t. timeStarted r = Some t \<and> ttl < now - t)"
  by (simp add: gcExpired_def split: option.splits)

lemma afterPurge_simps [simp]:
  "storage (afterPurge now st) = Serialized (registry (storage st))"
  "uploadTasks (afterPurge now st) = uploadTasks st"
  "listeners (afterPurge now st) = listeners st"
  "trace (afterPurge now st) = trace st @ gcEffects oneHourInMs now (registry (storage st))"
  by (simp_all add: afterPurge_def)

lemma subscribed_simps [simp]:
  "storage (subscribed em fk st) = storage st"
  "uploadTasks (subscribed em fk st) = uploadTasks st"
  "trace (subscribed em fk st) = trace st"
  "listeners (subscribed em fk st) em' =
     (if em' = em
      then listeners st em @ [(UPLOAD_COMPLETE, RemoveKeyListener fk), (ABORT, RemoveKeyListener fk)]
      else listeners st em')"
  by (simp_all add: subscribed_def emitter_on_def)

lemma isListPartsOutput_Some:
  "isListPartsOutput (Some out) = (UploadId out \<noteq> None \<and> Parts out \<noteq> None)"
  by (simp add: isListPartsOutput_def)

lemma isListPartsOutput_None [simp]: "\<not> isListPartsOutput None"
  by (simp add: isListPartsOutput_def)

text \<open>A request that resumes, with the state it leaves.\<close>

lemma addTask_resume:
  assumes "storage st = Serialized u"
    and "map_of u (fingerprint input) = Some r"
    and "case lastTouched r of None \<Rightarrow> True | Some t \<Rightarrow> now - t \<le> oneHourInMs"
    and "in_emitter input = Some em"
    and "listParts (in_s3Client input) (in_bucket input, in_key input, uploadId r) = Inr out"
    and "UploadId out = Some uid" and "Parts out = Some parts"
  shows "addTask input now st =
    (Inr (resumedTask input uid parts),
     (subscribed em (fingerprint input) st)
       \<lparr>storage := Serialized (AList.update (fingerprint input) (touch now r) u),
        uploadTasks := (uploadTasks st)(uid \<mapsto> resumedTask input uid parts),
        trace := trace st @ gcEffects oneHourInMs now u @
          [SetItem (Serialized (AList.update (fingerprint input) (touch now r) u)),
           Sent (ListPartsCommand (in_bucket input) (in_key input) (uploadId r))]\<rparr>)"
proof -
  have nm: "storage st \<noteq> Malformed" using assms(1) by simp
  have ap: "storage (afterPurge now st) = Serialized u" using assms(1) by simp
  have fk: "map_of u (getFileKey (in_file input) (in_bucket input) (in_key input)) = Some r"
    using assms(2) by (simp add: fingerprint_def)
  note look = lookup_fresh [OF ap fk assms(3), of "in_s3Client input"]
  show ?thesis
    unfolding addTask_unfold [OF nm] look
    using assms(4-7)
    by (simp add: Let_def isListPartsOutput_Some fingerprint_def subscribed_def emitter_on_def
        afterPurge_def assms(1))
qed

text \<open>A request that found no session to resume opens one, in the state the lookup left.\<close>

lemma addTask_fresh_path:
  assumes "storage st \<noteq> Malformed"
    and "in_emitter input = Some em"
    and "getCachedUploadParts (in_s3Client input) (in_bucket input) (in_key input)
           (in_file input) now (afterPurge now st) = (found, st2)"
    and "\<not> isListPartsOutput (case found of Inl err \<Rightarrow> None | Inr r \<Rightarrow> r)"
  shows "addTask input now st = initMultiupload input now (subscribed em (fingerprint input) st2)"
  unfolding addTask_unfold [OF assms(1)] using assms(2-4) by (simp add: Let_def)

lemma fingerprint_exRequest [simp]: "fingerprint (exRequest c) = exKey"
  by (simp add: fingerprint_def exRequest_def exFile_def exKey_def show_int_def
      show_nat.simps digit_char_def)

lemma exRequest_simps [simp]:
  "in_bucket (exRequest c) = ''b''" "in_key (exRequest c) = ''k''"
  "in_emitter (exRequest c) = Some 0" "in_s3Client (exRequest c) = c"
  "in_file (exRequest c) = exFile" "in_accessLevel (exRequest c) = ''public''"
  by (simp_all add: exRequest_def)

lemma exClient_simps [simp]:
  "listParts (exClient lp cr) q = lp" "createMultipartUpload (exClient lp cr) q' = cr"
  by (simp_all add: exClient_def)

lemma exRecord_simps [simp]:
  "timeStarted (exRecord a b) = a" "lastTouched (exRecord a b) = b"
  "uploadId (exRecord a b) = ''S1''" "bucket (exRecord a b) = ''b''" "key (exRecord a b) = ''k''"
  by (simp_all add: exRecord_def)

lemma newManager_simps [simp]:
  "storage (newManager s) = s" "uploadTasks (newManager s) = Map.empty"
  "listeners (newManager s) em = []" "trace (newManager s) = []"
  by (simp_all add: newManager_def)

subsection \<open>Fingerprints, field by field\<close>


text \<open>
  Beyond a single field the fingerprint is not one-to-one: the separator may occur inside a
  field, so inputs that differ in two fields at once can have the same fingerprint.
\<close>

lemma getFileKey_two_fields_collide:
  "getFileKey (Blob 1 ''a-b'') ''c'' ''k'' = getFileKey (Blob 1 ''a'') ''b-c'' ''k''
   \<and> (Blob 1 ''a-b'', ''c'', ''k'') \<noteq> (Blob 1 ''a'', ''b-c'', ''k'')"
  by simp

lemma Create_not_abort: "CreateMultipartUploadCommand b k \<notin> (\<lambda>p. abortOf (snd p)) ` S"
  by (auto simp: abortOf_def)

lemma ListParts_not_abort: "ListPartsCommand b k i \<notin> (\<lambda>p. abortOf (snd p)) ` S"
  by (auto simp: abortOf_def)

lemma isFile_file_name: "(file_name f \<noteq> None) = isFile f"
  by (cases f) simp_all

lemma isFile_file_name_ex: "(\<exists>y. file_name f = Some y) = isFile f"
  by (cases f) simp_all

text \<open>The first component of what opening a session returns does not depend on the state.\<close>

lemma fst_initMultiupload:
  "storage st \<noteq> Malformed \<Longrightarrow> storage st' \<noteq> Malformed \<Longrightarrow>
   fst (initMultiupload input now st) = fst (initMultiupload input now st')"
  by (cases "createMultipartUpload (in_s3Client input) (in_bucket input, in_key input)")
     (simp_all add: initMultiupload_ok initMultiupload_rejected)

lemma map_of_delete_None: "map_of (AList.delete k u) k = None"
  by (simp add: AList.delete_conv')

lemma update_present_keys: "map_of u k = Some r \<Longrightarrow> map fst (AList.update k v u) = map fst u"
  by (induction u) (auto split: if_splits)

text \<open>What a lookup leaves alone.\<close>

lemma lookup_preserves:
  assumes "storage st \<noteq> Malformed"
    and "getCachedUploadParts s3 bkt k file now st = (found, st2)"
  shows "storage st2 \<noteq> Malformed
     \<and> map fst (registry (storage st2)) = map fst (registry (storage st))
     \<and> uploadTasks st2 = uploadTasks st \<and> listeners st2 = listeners st"
proof (cases "storage st")
  case NoItem
  with assms(2) show ?thesis by (auto simp: getCachedUploadParts_def getItem_def)
next
  case Malformed
  with assms(1) show ?thesis by simp
next
  case (Serialized u)
  show ?thesis
  proof (cases "map_of u (getFileKey file bkt k)")
    case None
    with Serialized assms(2) show ?thesis by (simp add: lookup_absent)
  next
    case (Some r)
    show ?thesis
    proof (cases "case lastTouched r of None \<Rightarrow> True | Some t \<Rightarrow> now - t \<le> oneHourInMs")
      case True
      from assms(2) show ?thesis
        unfolding lookup_fresh [OF Serialized Some True]
        using Serialized Some by (auto simp: update_present_keys)
    next
      case False
      then obtain t where lt: "lastTouched r = Some t" and old: "oneHourInMs < now - t"
        by (auto split: option.splits)
      from assms(2) show ?thesis
        unfolding lookup_stale [OF Serialized Some lt old] using Serialized by auto
    qed
  qed
qed

lemma removeKey_parsed:
  assumes "storage st \<noteq> Malformed"
  shows "removeKey k st =
    (Inr (), st\<lparr>storage := Serialized (AList.delete k (registry (storage st))),
               trace := trace st @ [SetItem (Serialized (AList.delete k (registry (storage st))))]\<rparr>)"
  using assms
  by (cases "storage st") (simp_all add: removeKey_def getItem_def setItem_def JSON_stringify_def)

lemma delete_keys_set: "fst ` set (AList.delete k u) = fst ` set u - {k}"
  by (induction u) auto

lemma delete_absent: "k \<notin> fst ` set u \<Longrightarrow> AList.delete k u = u"
  by (induction u) auto

text \<open>Running listeners over a stored item that parses removes their keys and nothing else.\<close>

lemma runListeners_parsed:
  assumes "storage m \<noteq> Malformed"
  shows "\<exists>m'. runListeners ls m = (Inr (), m') \<and> storage m' \<noteq> Malformed
     \<and> fst ` set (registry (storage m')) = fst ` set (registry (storage m)) - listenerKey ` set ls
     \<and> uploadTasks m' = uploadTasks m \<and> listeners m' = listeners m"
  using assms
proof (induction ls arbitrary: m)
  case Nil
  then show ?case by simp
next
  case (Cons l ls)
  obtain k where l: "l = RemoveKeyListener k" by (cases l)
  let ?m1 = "m\<lparr>storage := Serialized (AList.delete k (registry (storage m))),
               trace := trace m @ [SetItem (Serialized (AList.delete k (registry (storage m))))]\<rparr>"
  have nm1: "storage ?m1 \<noteq> Malformed" by simp
  from Cons.IH [OF nm1] obtain m' where run: "runListeners ls ?m1 = (Inr (), m')"
    and nm': "storage m' \<noteq> Malformed"
    and keys: "fst ` set (registry (storage m')) =
        fst ` set (registry (storage ?m1)) - listenerKey ` set ls"
    and rest: "uploadTasks m' = uploadTasks ?m1" "listeners m' = listeners ?m1"
    by blast
  have "runListeners (l # ls) m = (Inr (), m')"
    by (simp add: l removeKey_parsed [OF Cons.prems] run)
  moreover have "fst ` set (registry (storage m')) =
      fst ` set (registry (storage m)) - listenerKey ` set (l # ls)"
    using keys by (auto simp: l delete_keys_set)
  ultimately show ?case using nm' rest by simp
qed

lemma initMultiupload_listeners:
  "listeners (snd (initMultiupload input now st)) = listeners st"
  by (simp add: initMultiupload_def addKey_def send_def setItem_def Let_def
      split: sum.splits prod.splits)

text \<open>A request that returns a task has subscribed the removal of its fingerprint.\<close>

lemma addTask_subscribes:
  assumes "addTask input now st = (Inr task, st1)"
  shows "task_emitter task = in_emitter input
     \<and> (\<exists>em. in_emitter input = Some em
          \<and> (UPLOAD_COMPLETE, RemoveKeyListener (fingerprint input)) \<in> set (listeners st1 em)
          \<and> (ABORT, RemoveKeyListener (fingerprint input)) \<in> set (listeners st1 em))"
proof -
  have nm: "storage st \<noteq> Malformed"
    using assms by (auto simp: addTask_Malformed)
  obtain found st2 where look: "getCachedUploadParts (in_s3Client input) (in_bucket input)
      (in_key input) (in_file input) now (afterPurge now st) = (found, st2)"
    by (cases "getCachedUploadParts (in_s3Client input) (in_bucket input)
      (in_key input) (in_file input) now (afterPurge now st)")
  have nmp: "storage (afterPurge now st) \<noteq> Malformed" by simp
  from lookup_preserves [OF nmp look] have nm2: "storage st2 \<noteq> Malformed" by simp
  obtain em where em: "in_emitter input = Some em"
    using assms by (cases "in_emitter input") (auto simp: addTask_unfold [OF nm] Let_def)
  let ?cached = "case found of Inl err \<Rightarrow> None | Inr r \<Rightarrow> r"
  show ?thesis
  proof (cases "isListPartsOutput ?cached")
    case True
    with assms em look show ?thesis
      by (auto simp: addTask_unfold [OF nm] Let_def resumedTask_def)
  next
    case False
    have run: "addTask input now st =
        initMultiupload input now (subscribed em (fingerprint input) st2)"
      by (rule addTask_fresh_path [OF nm em look False])
    have l1: "listeners st1 = listeners (subscribed em (fingerprint input) st2)"
      using initMultiupload_listeners [of input now "subscribed em (fingerprint input) st2"] assms
      by (simp add: run)
    have te: "task_emitter task = in_emitter input"
    proof (cases "createMultipartUpload (in_s3Client input) (in_bucket input, in_key input)")
      case (Inl e)
      with assms show ?thesis by (simp add: run initMultiupload_rejected)
    next
      case (Inr uid)
      have "storage (subscribed em (fingerprint input) st2) \<noteq> Malformed" using nm2 by simp
      from initMultiupload_ok [OF Inr this] assms show ?thesis
        by (auto simp: run freshTask_def)
    qed
    show ?thesis using te em by (simp add: l1)
  qed
qed

text \<open>A request over an empty registry for which the client opens a session.\<close>

lemma addTask_empty:
  assumes "storage st = NoItem \<or> storage st = Serialized []"
    and "in_emitter input = Some em"
    and "createMultipartUpload (in_s3Client input) (in_bucket input, in_key input) = Inr uid"
  shows "addTask input now st =
    (Inr (freshTask input uid),
     (subscribed em (fingerprint input) st)
       \<lparr>storage := Serialized [(fingerprint input, freshRecord input now uid)],
        uploadTasks := (uploadTasks st)(uid \<mapsto> freshTask input uid),
        trace := trace st @
          [SetItem (Serialized []),
           Sent (CreateMultipartUploadCommand (in_bucket input) (in_key input)),
           SetItem (Serialized [(fingerprint input, freshRecord input now uid)])]\<rparr>)"
proof -
  have nm: "storage st \<noteq> Malformed" and reg: "registry (storage st) = []"
    using assms(1) by auto
  have ap: "storage (afterPurge now st) = Serialized []" using reg by simp
  have look: "getCachedUploadParts (in_s3Client input) (in_bucket input) (in_key input)
           (in_file input) now (afterPurge now st) = (Inr None, afterPurge now st)"
    by (rule lookup_absent [OF ap]) simp
  have run: "addTask input now st =
      initMultiupload input now (subscribed em (fingerprint input) (afterPurge now st))"
    by (rule addTask_fresh_path [OF nm assms(2) look]) simp
  show ?thesis
    unfolding run
    by (subst initMultiupload_ok [OF assms(3)])
       (simp_all add: reg gcEffects_def expiredEntries_def subscribed_def emitter_on_def
          afterPurge_def)
qed

lemma exHealthy_simps [simp]:
  "listParts exHealthy q = Inr \<lparr>UploadId = Some ''S1'', Parts = Some []\<rparr>"
  "createMultipartUpload exHealthy q' = Inr ''S2''"
  by (simp_all add: exHealthy_def)

lemma runListeners_tasks: "uploadTasks (snd (runListeners ls m)) = uploadTasks m"
proof (induction ls arbitrary: m)
  case Nil
  then show ?case by simp
next
  case (Cons l ls)
  obtain k where l: "l = RemoveKeyListener k" by (cases l)
  show ?case
  proof (cases "storage m = Malformed")
    case True
    then show ?thesis by (simp add: l removeKey_def getItem_def)
  next
    case False
    show ?thesis
      by (simp add: l removeKey_parsed [OF False] Cons.IH)
  qed
qed

lemma initMultiupload_tasks:
  "uploadTasks (snd (initMultiupload input now st)) = uploadTasks st
   \<or> (\<exists>uid task. uploadTasks (snd (initMultiupload input now st)) = (uploadTasks st)(uid \<mapsto> task))"
  by (auto simp add: initMultiupload_def addKey_def send_def setItem_def Let_def
      split: sum.splits prod.splits)

text \<open>A request leaves the task table as it is or registers one task.\<close>

lemma addTask_tasks:
  "uploadTasks (snd (addTask input now st)) = uploadTasks st
   \<or> (\<exists>uid task. uploadTasks (snd (addTask input now st)) = (uploadTasks st)(uid \<mapsto> task))"
proof (cases "storage st = Malformed")
  case True
  then show ?thesis by (simp add: addTask_Malformed)
next
  case nm: False
  obtain found st2 where look: "getCachedUploadParts (in_s3Client input) (in_bucket input)
      (in_key input) (in_file input) now (afterPurge now st) = (found, st2)"
    by (cases "getCachedUploadParts (in_s3Client input) (in_bucket input)
      (in_key input) (in_file input) now (afterPurge now st)")
  have nmp: "storage (afterPurge now st) \<noteq> Malformed" by simp
  from lookup_preserves [OF nmp look] have t2: "uploadTasks st2 = uploadTasks st" by simp
  show ?thesis
  proof (cases "in_emitter input")
    case None
    then show ?thesis by (simp add: addTask_unfold [OF nm] look t2)
  next
    case (Some em)
    show ?thesis
    proof (cases "isListPartsOutput (case found of Inl err \<Rightarrow> None | Inr r \<Rightarrow> r)")
      case True
      then show ?thesis
        by (simp add: addTask_unfold [OF nm] look Some t2 Let_def) blast
    next
      case False
      have run: "addTask input now st =
          initMultiupload input now (subscribed em (fingerprint input) st2)"
        by (rule addTask_fresh_path [OF nm Some look False])
      show ?thesis
        unfolding run
        using initMultiupload_tasks [of input now "subscribed em (fingerprint input) st2"]
        by (simp add: t2)
    qed
  qed
qed

lemma perform_keeps: "getTask uid st \<noteq> None \<Longrightarrow> getTask uid (perform op st) \<noteq> None"
proof (cases op)
  case (AddTask input now)
  assume "getTask uid st \<noteq> None"
  with addTask_tasks [of input now st] show ?thesis
    by (auto simp: AddTask getTask_def)
next
  case (GetTask x)
  assume "getTask uid st \<noteq> None"
  then show ?thesis by (simp add: GetTask)
next
  case (Notify em ev)
  assume "getTask uid st \<noteq> None"
  then show ?thesis by (simp add: Notify getTask_def emit_def runListeners_tasks)
qed

lemma performAll_keeps: "getTask uid st \<noteq> None \<Longrightarrow> getTask uid (performAll ops st) \<noteq> None"
proof (induction ops arbitrary: st)
  case Nil
  then show ?case by simp
next
  case (Cons op ops)
  from Cons.prems have "getTask uid (perform op st) \<noteq> None" by (rule perform_keeps)
  then have "getTask uid (performAll ops (perform op st)) \<noteq> None" by (rule Cons.IH)
  then show ?case by simp
qed

text \<open>A request that returns a task has registered it under its session id.\<close>

lemma addTask_registers:
  assumes "addTask input now st = (Inr task, st')"
  shows "getTask (task_uploadId task) st' = Some task"
proof -
  have nm: "storage st \<noteq> Malformed"
    using assms by (auto simp: addTask_Malformed)
  obtain found st2 where look: "getCachedUploadParts (in_s3Client input) (in_bucket input)
      (in_key input) (in_file input) now (afterPurge now st) = (found, st2)"
    by (cases "getCachedUploadParts (in_s3Client input) (in_bucket input)
      (in_key input) (in_file input) now (afterPurge now st)")
  have nmp: "storage (afterPurge now st) \<noteq> Malformed" by simp
  from lookup_preserves [OF nmp look] have nm2: "storage st2 \<noteq> Malformed" by simp
  obtain em where em: "in_emitter input = Some em"
    using assms by (cases "in_emitter input") (auto simp: addTask_unfold [OF nm] Let_def)
  show ?thesis
  proof (cases "isListPartsOutput (case found of Inl err \<Rightarrow> None | Inr r \<Rightarrow> r)")
    case True
    with assms em look show ?thesis
      by (auto simp: addTask_unfold [OF nm] Let_def resumedTask_def getTask_def)
  next
    case False
    have run: "addTask input now st =
        initMultiupload input now (subscribed em (fingerprint input) st2)"
      by (rule addTask_fresh_path [OF nm em look False])
    show ?thesis
    proof (cases "createMultipartUpload (in_s3Client input) (in_bucket input, in_key input)")
      case (Inl e)
      with assms show ?thesis by (simp add: run initMultiupload_rejected)
    next
      case (Inr uid)
      have "storage (subscribed em (fingerprint input) st2) \<noteq> Malformed" using nm2 by simp
      from initMultiupload_ok [OF Inr this] assms show ?thesis
        by (auto simp: run freshTask_def getTask_def)
    qed
  qed
qed

text \<open>
  What the guard around the lookup does recover: when list-parts for a fresh record is
  rejected, the request goes on to open a new session.
\<close>

lemma addTask_recovers_from_listParts_failure:
  assumes "storage st = Serialized u"
    and "map_of u (fingerprint input) = Some r"
    and "case lastTouched r of None \<Rightarrow> True | Some t \<Rightarrow> now - t \<le> oneHourInMs"
    and "in_emitter input = Some em"
    and "listParts (in_s3Client input) (in_bucket input, in_key input, uploadId r) = Inl e"
    and "createMultipartUpload (in_s3Client input) (in_bucket input, in_key input) = Inr uid"
  shows "fst (addTask input now st) = Inr (freshTask input uid)"
proof -
  have nm: "storage st \<noteq> Malformed" using assms(1) by simp
  have ap: "storage (afterPurge now st) = Serialized u" using assms(1) by simp
  have fk: "map_of u (getFileKey (in_file input) (in_bucket input) (in_key input)) = Some r"
    using assms(2) by (simp add: fingerprint_def)
  obtain st2 where look: "getCachedUploadParts (in_s3Client input) (in_bucket input)
      (in_key input) (in_file input) now (afterPurge now st) = (Inl e, st2)"
    using lookup_fresh [OF ap fk assms(3), of "in_s3Client input"] assms(5) by simp
  have nmp: "storage (afterPurge now st) \<noteq> Malformed" by simp
  from lookup_preserves [OF nmp look] have nm2: "storage st2 \<noteq> Malformed" by simp
  have run: "addTask input now st =
      initMultiupload input now (subscribed em (fingerprint input) st2)"
    by (rule addTask_fresh_path [OF nm assms(4) look]) simp
  have "storage (subscribed em (fingerprint input) st2) \<noteq> Malformed" using nm2 by simp
  from initMultiupload_ok [OF assms(6) this] show ?thesis by (simp add: run)
qed

text \<open>Opening a session begins with sending the command and only adds to the trace.\<close>

lemma initMultiupload_trace:
  "\<exists>rest. trace (snd (initMultiupload input now st)) =
     trace st @ Sent (CreateMultipartUploadCommand (in_bucket input) (in_key input)) # rest"
  by (auto simp add: initMultiupload_def addKey_def send_def setItem_def Let_def
      split: sum.splits prod.splits)

text \<open>What a request over a fresh record does up to the answer of list-parts.\<close>

lemma addTask_fresh_lookup:
  assumes "storage st = Serialized u"
    and "map_of u (fingerprint input) = Some r"
    and "case lastTouched r of None \<Rightarrow> True | Some t \<Rightarrow> now - t \<le> oneHourInMs"
  shows "getCachedUploadParts (in_s3Client input) (in_bucket input) (in_key input)
           (in_file input) now (afterPurge now st) =
     (map_sum id Some (listParts (in_s3Client input) (in_bucket input, in_key input, uploadId r)),
      (afterPurge now st)
        \<lparr>storage := Serialized (AList.update (fingerprint input) (touch now r) u),
         trace := trace st @ gcEffects oneHourInMs now u @
           [SetItem (Serialized (AList.update (fingerprint input) (touch now r) u)),
            Sent (ListPartsCommand (in_bucket input) (in_key input) (uploadId r))]\<rparr>)"
proof -
  have ap: "storage (afterPurge now st) = Serialized u" using assms(1) by simp
  have fk: "map_of u (getFileKey (in_file input) (in_bucket input) (in_key input)) = Some r"
    using assms(2) by (simp add: fingerprint_def)
  show ?thesis
    unfolding lookup_fresh [OF ap fk assms(3), of "in_s3Client input"]
    by (simp add: fingerprint_def assms(1))
qed

text \<open>
  Over a stored item that parses the notifications do what is asked of them. Let a request
  have returned a task, and let the task's emitter emit the completion or the abort
  notification in any later state (one in which the emitter still has the listeners it had
  when the request returned) whose stored item parses, whatever registry it holds. Then the
  emission succeeds and the registry stored afterwards has no record under the fingerprint;
  the removal leaves the registry as it is when the fingerprint is already absent, and
  changes nothing when repeated.
\<close>

lemma notification_evicts_when_item_parses:
  assumes "addTask input now st = (Inr task, st1)"
    and "task_emitter task = Some em"
    and "ev = UPLOAD_COMPLETE \<or> ev = ABORT"
    and "storage m \<noteq> Malformed"
    and "set (listeners st1 em) \<subseteq> set (listeners m em)"
  shows "(\<exists>m'. emit em ev m = (Inr (), m')
            \<and> map_of (registry (storage m')) (fingerprint input) = None
            \<and> uploadTasks m' = uploadTasks m)
     \<and> (\<exists>m1 m2. removeKey (fingerprint input) m = (Inr (), m1)
            \<and> map_of (registry (storage m1)) (fingerprint input) = None
            \<and> (map_of (registry (storage m)) (fingerprint input) = None
                 \<longrightarrow> registry (storage m1) = registry (storage m))
            \<and> removeKey (fingerprint input) m1 = (Inr (), m2)
            \<and> registry (storage m2) = registry (storage m1))"
proof
  from addTask_subscribes [OF assms(1)] assms(2)
  have sub: "(UPLOAD_COMPLETE, RemoveKeyListener (fingerprint input)) \<in> set (listeners st1 em)"
      "(ABORT, RemoveKeyListener (fingerprint input)) \<in> set (listeners st1 em)"
    by auto
  with assms(3,5) have "(ev, RemoveKeyListener (fingerprint input)) \<in> set (listeners m em)"
    by auto
  then have called: "RemoveKeyListener (fingerprint input)
      \<in> set (map snd (filter (\<lambda>p. fst p = ev) (listeners m em)))"
    by force
  from runListeners_parsed [OF assms(4), of "map snd (filter (\<lambda>p. fst p = ev) (listeners m em))"]
  obtain m' where run: "emit em ev m = (Inr (), m')"
    and keys: "fst ` set (registry (storage m')) = fst ` set (registry (storage m))
        - listenerKey ` set (map snd (filter (\<lambda>p. fst p = ev) (listeners m em)))"
    and tasks: "uploadTasks m' = uploadTasks m"
    unfolding emit_def by blast
  have "listenerKey (RemoveKeyListener (fingerprint input))
      \<in> listenerKey ` set (map snd (filter (\<lambda>p. fst p = ev) (listeners m em)))"
    using called by (rule imageI)
  then have "fingerprint input \<notin> fst ` set (registry (storage m'))"
    unfolding keys by simp
  then have "map_of (registry (storage m')) (fingerprint input) = None"
    by (simp add: map_of_eq_None_iff)
  with run tasks show "\<exists>m'. emit em ev m = (Inr (), m')
            \<and> map_of (registry (storage m')) (fingerprint input) = None
            \<and> uploadTasks m' = uploadTasks m"
    by blast
next
  let ?fk = "fingerprint input"
  let ?m1 = "m\<lparr>storage := Serialized (AList.delete ?fk (registry (storage m))),
               trace := trace m @ [SetItem (Serialized (AList.delete ?fk (registry (storage m))))]\<rparr>"
  let ?m2 = "?m1\<lparr>storage := Serialized (AList.delete ?fk (registry (storage ?m1))),
               trace := trace ?m1 @ [SetItem (Serialized (AList.delete ?fk (registry (storage ?m1))))]\<rparr>"
  have r1: "removeKey ?fk m = (Inr (), ?m1)" by (rule removeKey_parsed [OF assms(4)])
  have "storage ?m1 \<noteq> Malformed" by simp
  then have r2: "removeKey ?fk ?m1 = (Inr (), ?m2)" by (rule removeKey_parsed)
  have gone: "map_of (registry (storage ?m1)) ?fk = None"
    by (simp add: AList.delete_conv')
  have unchanged: "map_of (registry (storage m)) ?fk = None
      \<longrightarrow> registry (storage ?m1) = registry (storage m)"
    by (simp add: map_of_eq_None_iff delete_absent)
  have idem: "registry (storage ?m2) = registry (storage ?m1)"
    by (simp add: AList.delete_idem)
  show "\<exists>m1 m2. removeKey ?fk m = (Inr (), m1)
            \<and> map_of (registry (storage m1)) ?fk = None
            \<and> (map_of (registry (storage m)) ?fk = None
                 \<longrightarrow> registry (storage m1) = registry (storage m))
            \<and> removeKey ?fk m1 = (Inr (), m2)
            \<and> registry (storage m2) = registry (storage m1)"
    by (rule exI [of _ ?m1], rule exI [of _ ?m2]) (intro conjI r1 r2 gone unchanged idem)
qed

section \<open>The properties\<close>

subsection \<open>C1: a malformed stored item\<close>

text \<open>
  C1 says that a request never surfaces a persistence error: a malformed serialised
  registry is to be treated as no cached session, and the request is to open a new session.
  In the code only the lookup stands inside \<^verbatim>\<open>try\<close>. The garbage-collection pass runs before
  it, parses the same item and is not guarded. So, on a stored item that is not JSON, the
  request of the scenario is rejected with the SyntaxError of \<^verbatim>\<open>JSON.parse\<close> although the
  client would have opened a session: nothing is sent, nothing is stored, no task is
  registered.
\<close>

theorem addTask_malformed_registry_rejects:
  "addTask (exRequest exHealthy) 5000 (newManager Malformed)
   = (Inl SyntaxError, newManager Malformed)"
  by (simp add: addTask_Malformed)

subsection \<open>C2: fingerprints\<close>


subsection \<open>C4: the garbage-collection pass\<close>

text \<open>
  C4: a garbage-collection pass over a stored item that parses removes no record whose age
  by session-start is not above the time-to-live (it removes no record at all: the registry
  it stores is the registry it read). For every record whose age by session-start is above
  the time-to-live it sends the abort of that record's session, and it sends no other
  command. It stores the registry once, after the last abort was sent, so every expired
  record is still in the stored registry, its deletion pending on the acknowledgement of
  the abort.
\<close>

theorem purge_gc_invariant:
  assumes "storage st \<noteq> Malformed"
  shows "\<exists>pending st'. purgeExpiredKeys s3 ttl_opt now st = (Inr pending, st')
     \<and> registry (storage st') = registry (storage st)
     \<and> (\<forall>k r. (k, r) \<in> set (registry (storage st)) \<and> \<not> gcExpired (ttlOf ttl_opt) now r
           \<longrightarrow> (k, r) \<in> set (registry (storage st')))
     \<and> (\<forall>k r t. (k, r) \<in> set (registry (storage st)) \<and> timeStarted r = Some t
             \<and> ttlOf ttl_opt < now - t
           \<longrightarrow> abortOf r \<in> set (commandsSent (newEffects st st'))
               \<and> k \<in> set pending \<and> (k, r) \<in> set (registry (storage st')))
     \<and> commandsSent (newEffects st st') =
           map (\<lambda>p. abortOf (snd p)) (expiredEntries (ttlOf ttl_opt) now (registry (storage st)))
     \<and> itemsSet (newEffects st st') = [Serialized (registry (storage st))]
     \<and> trace st' = trace st @ map (\<lambda>p. Sent (abortOf (snd p)))
           (expiredEntries (ttlOf ttl_opt) now (registry (storage st)))
           @ [SetItem (Serialized (registry (storage st)))]"
proof -
  let ?reg = "registry (storage st)"
  let ?ex = "expiredEntries (ttlOf ttl_opt) now ?reg"
  let ?st' = "st\<lparr>storage := Serialized ?reg, trace := trace st @ gcEffects (ttlOf ttl_opt) now ?reg\<rparr>"
  have run: "purgeExpiredKeys s3 ttl_opt now st = (Inr (map fst ?ex), ?st')"
    using assms by (rule purgeExpiredKeys_parsed)
  have new: "newEffects st ?st' = gcEffects (ttlOf ttl_opt) now ?reg"
    by simp
  have old: "\<And>k r t. (k, r) \<in> set ?reg \<Longrightarrow> timeStarted r = Some t \<Longrightarrow> ttlOf ttl_opt < now - t
      \<Longrightarrow> (k, r) \<in> set ?ex"
    by (simp add: expiredEntries_def gcExpired_def)
  have aborted: "\<And>k r. (k, r) \<in> set ?ex
      \<Longrightarrow> abortOf r \<in> set (commandsSent (gcEffects (ttlOf ttl_opt) now ?reg))"
    by (force simp: gcEffects_def)
  have pend: "\<And>k r. (k, r) \<in> set ?ex \<Longrightarrow> k \<in> set (map fst ?ex)"
    by force
  have c1: "registry (storage ?st') = ?reg" by simp
  have c2: "\<forall>k r. (k, r) \<in> set ?reg \<and> \<not> gcExpired (ttlOf ttl_opt) now r
           \<longrightarrow> (k, r) \<in> set (registry (storage ?st'))" by simp
  have c3: "\<forall>k r t. (k, r) \<in> set ?reg \<and> timeStarted r = Some t \<and> ttlOf ttl_opt < now - t
           \<longrightarrow> abortOf r \<in> set (commandsSent (newEffects st ?st'))
               \<and> k \<in> set (map fst ?ex) \<and> (k, r) \<in> set (registry (storage ?st'))"
    unfolding new c1 using old aborted pend by blast
  have c4: "commandsSent (newEffects st ?st') = map (\<lambda>p. abortOf (snd p)) ?ex"
    unfolding new by (simp add: gcEffects_def)
  have c5: "itemsSet (newEffects st ?st') = [Serialized ?reg]"
    unfolding new by (simp add: gcEffects_def)
  have c6: "trace ?st' =
      trace st @ map (\<lambda>p. Sent (abortOf (snd p))) ?ex @ [SetItem (Serialized ?reg)]"
    by (simp add: gcEffects_def)
  from run c1 c2 c3 c4 c5 c6 show ?thesis by blast
qed

text \<open>
  A pass at 3600001 over a record started at 0 and a record started at 3600000: the abort of
  the first is sent, and both are in the registry the pass stores.
\<close>

theorem purge_gc_invariant_witness:
  "storage (newManager (Serialized [(''old'', exRecord (Some 0) (Some 0)),
       (''young'', exRecord (Some 3600000) (Some 3600000))])) \<noteq> Malformed
   \<and> abortOf (exRecord (Some 0) (Some 0)) \<in> set (commandsSent (trace (snd
       (purgeExpiredKeys exHealthy None 3600001
         (newManager (Serialized [(''old'', exRecord (Some 0) (Some 0)),
            (''young'', exRecord (Some 3600000) (Some 3600000))]))))))
   \<and> registry (storage (snd
       (purgeExpiredKeys exHealthy None 3600001
         (newManager (Serialized [(''old'', exRecord (Some 0) (Some 0)),
            (''young'', exRecord (Some 3600000) (Some 3600000))])))))
     = [(''old'', exRecord (Some 0) (Some 0)), (''young'', exRecord (Some 3600000) (Some 3600000))]"
proof -
  let ?u = "[(''old'', exRecord (Some 0) (Some 0)), (''young'', exRecord (Some 3600000) (Some 3600000))]"
  let ?m = "newManager (Serialized ?u)"
  have h: "storage ?m \<noteq> Malformed" by simp
  from purge_gc_invariant [OF h, of exHealthy None 3600001]
  obtain pending st' where run: "purgeExpiredKeys exHealthy None 3600001 ?m = (Inr pending, st')"
    and same: "registry (storage st') = registry (storage ?m)"
    and old: "\<forall>k r t. (k, r) \<in> set (registry (storage ?m)) \<and> timeStarted r = Some t
             \<and> ttlOf None < 3600001 - t
           \<longrightarrow> abortOf r \<in> set (commandsSent (newEffects ?m st'))
               \<and> k \<in> set pending \<and> (k, r) \<in> set (registry (storage st'))"
    by blast
  have "(''old'', exRecord (Some 0) (Some 0)) \<in> set (registry (storage ?m))
      \<and> timeStarted (exRecord (Some 0) (Some 0)) = Some 0 \<and> ttlOf None < 3600001 - 0"
    by (simp add: oneHourInMs_def)
  with old have "abortOf (exRecord (Some 0) (Some 0)) \<in> set (commandsSent (newEffects ?m st'))"
    by blast
  then have "abortOf (exRecord (Some 0) (Some 0)) \<in> set (commandsSent (trace st'))"
    by (simp add: newEffects_def)
  with h same run show ?thesis by simp
qed

subsection \<open>C3: a fresh record\<close>

text \<open>
  C3, as amended: when the registry holds a record for the fingerprint of a request whose
  age by last-touched is below one hour, the request, after its garbage-collection pass,
  sets the record's last-touched to now, stores the registry and sends list-parts for the
  cached session id; whatever else it does comes after. For a request with an emitter:
  if list-parts is answered with an output that has both an UploadId and Parts, the request
  does nothing more than that, sends no create-multipart-upload, and returns a task under
  the reported session id pre-seeded with the reported parts, registered in the task table.
  In every other case (list-parts is rejected, or its output lacks UploadId or Parts) the
  request next sends create-multipart-upload: it returns the task of the new session,
  registered under the new session id, if the client opens one, and the client's error if
  not.
\<close>

theorem fresh_record_resumes:
  assumes "storage st = Serialized u"
    and "map_of u (fingerprint input) = Some r"
    and "lastTouched r = Some t" and "now - t < oneHourInMs"
  shows "(\<exists>rest. newEffects st (snd (addTask input now st)) = gcEffects oneHourInMs now u @
          [SetItem (Serialized (AList.update (fingerprint input) (r\<lparr>lastTouched := Some now\<rparr>) u)),
           Sent (ListPartsCommand (in_bucket input) (in_key input) (uploadId r))] @ rest)
     \<and> (in_emitter input = Some em
        \<and> listParts (in_s3Client input) (in_bucket input, in_key input, uploadId r) = Inr out
        \<and> UploadId out = Some uid \<and> Parts out = Some parts
        \<longrightarrow> (\<exists>st'. addTask input now st = (Inr (resumedTask input uid parts), st')
              \<and> storage st' = Serialized
                   (AList.update (fingerprint input) (r\<lparr>lastTouched := Some now\<rparr>) u)
              \<and> newEffects st st' = gcEffects oneHourInMs now u @
                   [SetItem (Serialized
                      (AList.update (fingerprint input) (r\<lparr>lastTouched := Some now\<rparr>) u)),
                    Sent (ListPartsCommand (in_bucket input) (in_key input) (uploadId r))]
              \<and> CreateMultipartUploadCommand (in_bucket input) (in_key input)
                   \<notin> set (commandsSent (newEffects st st'))
              \<and> getTask uid st' = Some (resumedTask input uid parts)))
     \<and> (in_emitter input = Some em
        \<and> \<not> (\<exists>out uid parts.
               listParts (in_s3Client input) (in_bucket input, in_key input, uploadId r) = Inr out
               \<and> UploadId out = Some uid \<and> Parts out = Some parts)
        \<longrightarrow> (\<exists>rest. newEffects st (snd (addTask input now st)) = gcEffects oneHourInMs now u @
                [SetItem (Serialized
                   (AList.update (fingerprint input) (r\<lparr>lastTouched := Some now\<rparr>) u)),
                 Sent (ListPartsCommand (in_bucket input) (in_key input) (uploadId r)),
                 Sent (CreateMultipartUploadCommand (in_bucket input) (in_key input))] @ rest)
            \<and> (\<forall>newId.
                  createMultipartUpload (in_s3Client input) (in_bucket input, in_key input) = Inr newId
                  \<longrightarrow> (\<exists>st'. addTask input now st = (Inr (freshTask input newId), st')
                        \<and> getTask newId st' = Some (freshTask input newId)))
            \<and> (\<forall>e.
                  createMultipartUpload (in_s3Client input) (in_bucket input, in_key input) = Inl e
                  \<longrightarrow> fst (addTask input now st) = Inl e))"
proof -
  let ?fp = "fingerprint input"
  let ?u' = "AList.update ?fp (r\<lparr>lastTouched := Some now\<rparr>) u"
  let ?lp = "Sent (ListPartsCommand (in_bucket input) (in_key input) (uploadId r))"
  let ?cr = "Sent (CreateMultipartUploadCommand (in_bucket input) (in_key input))"
  let ?reply = "listParts (in_s3Client input) (in_bucket input, in_key input, uploadId r)"
  let ?st2 = "(afterPurge now st)
        \<lparr>storage := Serialized ?u',
         trace := trace st @ gcEffects oneHourInMs now u @ [SetItem (Serialized ?u'), ?lp]\<rparr>"
  have nm: "storage st \<noteq> Malformed" using assms(1) by simp
  have fresh: "case lastTouched r of None \<Rightarrow> True | Some t \<Rightarrow> now - t \<le> oneHourInMs"
    using assms(3,4) by simp
  have look: "getCachedUploadParts (in_s3Client input) (in_bucket input) (in_key input)
           (in_file input) now (afterPurge now st) = (map_sum id Some ?reply, ?st2)"
    using addTask_fresh_lookup [OF assms(1,2) fresh] by (simp add: touch_def)
  have tr2: "trace ?st2 = trace st @ gcEffects oneHourInMs now u @ [SetItem (Serialized ?u'), ?lp]"
    by simp
  have fall: "\<exists>rest. newEffects st (snd (addTask input now st)) =
        gcEffects oneHourInMs now u @ [SetItem (Serialized ?u'), ?lp, ?cr] @ rest"
    if em: "in_emitter input = Some em'"
      and miss: "\<not> isListPartsOutput (case map_sum id Some ?reply of Inl err \<Rightarrow> None | Inr x \<Rightarrow> x)"
    for em'
  proof -
    have run: "addTask input now st = initMultiupload input now (subscribed em' ?fp ?st2)"
      by (rule addTask_fresh_path [OF nm em look miss])
    from initMultiupload_trace [of input now "subscribed em' ?fp ?st2"]
    obtain rest where "trace (snd (initMultiupload input now (subscribed em' ?fp ?st2))) =
        trace (subscribed em' ?fp ?st2) @ ?cr # rest"
      by blast
    then have "trace (snd (addTask input now st)) =
        trace st @ (gcEffects oneHourInMs now u @ [SetItem (Serialized ?u'), ?lp, ?cr] @ rest)"
      by (simp add: run)
    then have "newEffects st (snd (addTask input now st)) =
        gcEffects oneHourInMs now u @ [SetItem (Serialized ?u'), ?lp, ?cr] @ rest"
      by (rule newEffects_append)
    then show ?thesis by blast
  qed
  have A: "\<exists>rest. newEffects st (snd (addTask input now st)) =
      gcEffects oneHourInMs now u @ [SetItem (Serialized ?u'), ?lp] @ rest"
  proof (cases "in_emitter input")
    case None
    have "snd (addTask input now st) = ?st2"
      by (simp add: addTask_unfold [OF nm] look None Let_def)
    then have "trace (snd (addTask input now st)) =
        trace st @ (gcEffects oneHourInMs now u @ [SetItem (Serialized ?u'), ?lp] @ [])"
      by simp
    then have "newEffects st (snd (addTask input now st)) =
        gcEffects oneHourInMs now u @ [SetItem (Serialized ?u'), ?lp] @ []"
      by (rule newEffects_append)
    then show ?thesis by blast
  next
    case (Some em')
    show ?thesis
    proof (cases "isListPartsOutput (case map_sum id Some ?reply of Inl err \<Rightarrow> None | Inr x \<Rightarrow> x)")
      case True
      have "snd (addTask input now st) =
          (subscribed em' ?fp ?st2)\<lparr>uploadTasks := (uploadTasks ?st2)
             (the (UploadId (the (case map_sum id Some ?reply of Inl err \<Rightarrow> None | Inr x \<Rightarrow> x))) \<mapsto>
               resumedTask input
                 (the (UploadId (the (case map_sum id Some ?reply of Inl err \<Rightarrow> None | Inr x \<Rightarrow> x))))
                 (the (Parts (the (case map_sum id Some ?reply of Inl err \<Rightarrow> None | Inr x \<Rightarrow> x)))))\<rparr>"
        using True by (simp add: addTask_unfold [OF nm] look Some Let_def)
      then have "trace (snd (addTask input now st)) =
          trace st @ (gcEffects oneHourInMs now u @ [SetItem (Serialized ?u'), ?lp] @ [])"
        by simp
      then have "newEffects st (snd (addTask input now st)) =
          gcEffects oneHourInMs now u @ [SetItem (Serialized ?u'), ?lp] @ []"
        by (rule newEffects_append)
      then show ?thesis by blast
    next
      case False
      from fall [OF Some False] obtain rest where
        "newEffects st (snd (addTask input now st)) =
           gcEffects oneHourInMs now u @ [SetItem (Serialized ?u'), ?lp, ?cr] @ rest"
        by blast
      then have "newEffects st (snd (addTask input now st)) =
           gcEffects oneHourInMs now u @ [SetItem (Serialized ?u'), ?lp] @ (?cr # rest)"
        by simp
      then show ?thesis by blast
    qed
  qed
  have B: "in_emitter input = Some em \<and> ?reply = Inr out
        \<and> UploadId out = Some uid \<and> Parts out = Some parts
        \<longrightarrow> (\<exists>st'. addTask input now st = (Inr (resumedTask input uid parts), st')
              \<and> storage st' = Serialized ?u'
              \<and> newEffects st st' = gcEffects oneHourInMs now u @ [SetItem (Serialized ?u'), ?lp]
              \<and> CreateMultipartUploadCommand (in_bucket input) (in_key input)
                   \<notin> set (commandsSent (newEffects st st'))
              \<and> getTask uid st' = Some (resumedTask input uid parts))"
  proof
    assume h: "in_emitter input = Some em \<and> ?reply = Inr out
        \<and> UploadId out = Some uid \<and> Parts out = Some parts"
    then have em: "in_emitter input = Some em" and lp: "?reply = Inr out"
      and ui: "UploadId out = Some uid" and pa: "Parts out = Some parts"
      by simp_all
    note run = addTask_resume [OF assms(1,2) fresh em lp ui pa]
    show "\<exists>st'. addTask input now st = (Inr (resumedTask input uid parts), st')
              \<and> storage st' = Serialized ?u'
              \<and> newEffects st st' = gcEffects oneHourInMs now u @ [SetItem (Serialized ?u'), ?lp]
              \<and> CreateMultipartUploadCommand (in_bucket input) (in_key input)
                   \<notin> set (commandsSent (newEffects st st'))
              \<and> getTask uid st' = Some (resumedTask input uid parts)"
      unfolding run
      by (simp add: getTask_def touch_def commandsSent_gcEffects Create_not_abort)
  qed
  have C: "in_emitter input = Some em
        \<and> \<not> (\<exists>out uid parts. ?reply = Inr out \<and> UploadId out = Some uid \<and> Parts out = Some parts)
        \<longrightarrow> (\<exists>rest. newEffects st (snd (addTask input now st)) =
                gcEffects oneHourInMs now u @ [SetItem (Serialized ?u'), ?lp, ?cr] @ rest)
            \<and> (\<forall>newId.
                  createMultipartUpload (in_s3Client input) (in_bucket input, in_key input) = Inr newId
                  \<longrightarrow> (\<exists>st'. addTask input now st = (Inr (freshTask input newId), st')
                        \<and> getTask newId st' = Some (freshTask input newId)))
            \<and> (\<forall>e.
                  createMultipartUpload (in_s3Client input) (in_bucket input, in_key input) = Inl e
                  \<longrightarrow> fst (addTask input now st) = Inl e)"
  proof
    assume h: "in_emitter input = Some em
        \<and> \<not> (\<exists>out uid parts. ?reply = Inr out \<and> UploadId out = Some uid \<and> Parts out = Some parts)"
    then have em: "in_emitter input = Some em"
      and no: "\<not> (\<exists>out uid parts. ?reply = Inr out \<and> UploadId out = Some uid \<and> Parts out = Some parts)"
      by simp_all
    have miss: "\<not> isListPartsOutput (case map_sum id Some ?reply of Inl err \<Rightarrow> None | Inr x \<Rightarrow> x)"
      using no by (cases ?reply) (auto simp: isListPartsOutput_Some)
    have run: "addTask input now st = initMultiupload input now (subscribed em ?fp ?st2)"
      by (rule addTask_fresh_path [OF nm em look miss])
    have nm2: "storage (subscribed em ?fp ?st2) \<noteq> Malformed" by simp
    have c1: "\<exists>rest. newEffects st (snd (addTask input now st)) =
                gcEffects oneHourInMs now u @ [SetItem (Serialized ?u'), ?lp, ?cr] @ rest"
      by (rule fall [OF em miss])
    have c2: "\<forall>newId.
        createMultipartUpload (in_s3Client input) (in_bucket input, in_key input) = Inr newId
        \<longrightarrow> (\<exists>st'. addTask input now st = (Inr (freshTask input newId), st')
              \<and> getTask newId st' = Some (freshTask input newId))"
    proof (intro allI impI)
      fix newId
      assume c: "createMultipartUpload (in_s3Client input) (in_bucket input, in_key input) = Inr newId"
      show "\<exists>st'. addTask input now st = (Inr (freshTask input newId), st')
              \<and> getTask newId st' = Some (freshTask input newId)"
        unfolding run initMultiupload_ok [OF c nm2] by (simp add: getTask_def)
    qed
    have c3: "\<forall>e.
        createMultipartUpload (in_s3Client input) (in_bucket input, in_key input) = Inl e
        \<longrightarrow> fst (addTask input now st) = Inl e"
      by (simp add: run initMultiupload_rejected)
    from c1 c2 c3 show "(\<exists>rest. newEffects st (snd (addTask input now st)) =
                gcEffects oneHourInMs now u @ [SetItem (Serialized ?u'), ?lp, ?cr] @ rest)
            \<and> (\<forall>newId.
                  createMultipartUpload (in_s3Client input) (in_bucket input, in_key input) = Inr newId
                  \<longrightarrow> (\<exists>st'. addTask input now st = (Inr (freshTask input newId), st')
                        \<and> getTask newId st' = Some (freshTask input newId)))
            \<and> (\<forall>e.
                  createMultipartUpload (in_s3Client input) (in_bucket input, in_key input) = Inl e
                  \<longrightarrow> fst (addTask input now st) = Inl e)"
      by (intro conjI)
  qed
  from A B C show ?thesis by (intro conjI)
qed

text \<open>
  The scenario's second request: a record touched at 1000, a request at 2000, a client that
  reports session S1 with an empty list of parts.
\<close>

theorem fresh_record_resumes_witness:
  "storage (newManager (Serialized [(exKey, exRecord (Some 0) (Some 1000))]))
     = Serialized [(exKey, exRecord (Some 0) (Some 1000))]
   \<and> 2000 - 1000 < oneHourInMs
   \<and> fst (addTask (exRequest exHealthy) 2000
        (newManager (Serialized [(exKey, exRecord (Some 0) (Some 1000))])))
       = Inr (resumedTask (exRequest exHealthy) ''S1'' [])"
proof -
  let ?u = "[(exKey, exRecord (Some 0) (Some 1000))]"
  let ?m = "newManager (Serialized ?u)"
  have h1: "storage ?m = Serialized ?u" by simp
  have h2: "map_of ?u (fingerprint (exRequest exHealthy)) = Some (exRecord (Some 0) (Some 1000))"
    by simp
  have h3: "lastTouched (exRecord (Some 0) (Some 1000)) = Some 1000" by simp
  have h4: "2000 - 1000 < oneHourInMs" by (simp add: oneHourInMs_def)
  have b: "in_emitter (exRequest exHealthy) = Some 0
      \<and> listParts (in_s3Client (exRequest exHealthy))
          (in_bucket (exRequest exHealthy), in_key (exRequest exHealthy),
           uploadId (exRecord (Some 0) (Some 1000)))
        = Inr \<lparr>UploadId = Some ''S1'', Parts = Some []\<rparr>
      \<and> UploadId \<lparr>UploadId = Some ''S1'', Parts = Some []\<rparr> = Some ''S1''
      \<and> Parts \<lparr>UploadId = Some ''S1'', Parts = Some []\<rparr> = Some []"
    by simp
  from fresh_record_resumes [OF h1 h2 h3 h4, of 0 "\<lparr>UploadId = Some ''S1'', Parts = Some []\<rparr>"
      "''S1''" "[]"] b
  obtain st' where "addTask (exRequest exHealthy) 2000 ?m
      = (Inr (resumedTask (exRequest exHealthy) ''S1'' []), st')"
    by blast
  with h1 h4 show ?thesis by simp
qed

text \<open>
  C3 as stated fails where the answer of list-parts is not accepted as a cached upload. The
  record is fresh and the query succeeds, but its output has no Parts; the guard
  \<^verbatim>\<open>_isListPartsOutput\<close> turns it down, and the request opens session S2 after all.
\<close>

theorem fresh_record_without_parts_opens_session:
  "map_of [(exKey, exRecord (Some 0) (Some 1000))]
       (fingerprint (exRequest (exClient (Inr \<lparr>UploadId = Some ''S1'', Parts = None\<rparr>) (Inr ''S2''))))
     = Some (exRecord (Some 0) (Some 1000))
   \<and> lastTouched (exRecord (Some 0) (Some 1000)) = Some 1000
   \<and> 2000 - 1000 < oneHourInMs
   \<and> fst (addTask (exRequest (exClient (Inr \<lparr>UploadId = Some ''S1'', Parts = None\<rparr>) (Inr ''S2''))) 2000
        (newManager (Serialized [(exKey, exRecord (Some 0) (Some 1000))])))
     = Inr (freshTask (exRequest (exClient (Inr \<lparr>UploadId = Some ''S1'', Parts = None\<rparr>) (Inr ''S2''))) ''S2'')
   \<and> commandsSent (trace (snd (addTask (exRequest (exClient (Inr \<lparr>UploadId = Some ''S1'', Parts = None\<rparr>) (Inr ''S2''))) 2000
        (newManager (Serialized [(exKey, exRecord (Some 0) (Some 1000))])))))
     = [ListPartsCommand ''b'' ''k'' ''S1'', CreateMultipartUploadCommand ''b'' ''k'']"
proof -
  let ?c = "exClient (Inr \<lparr>UploadId = Some ''S1'', Parts = None\<rparr>) (Inr ''S2'')"
  let ?u = "[(exKey, exRecord (Some 0) (Some 1000))]"
  let ?m = "newManager (Serialized ?u)"
  have nm: "storage ?m \<noteq> Malformed" by simp
  have ap: "storage (afterPurge 2000 ?m) = Serialized ?u" by simp
  have look: "getCachedUploadParts (in_s3Client (exRequest ?c)) (in_bucket (exRequest ?c)) (in_key (exRequest ?c))
           (in_file (exRequest ?c)) 2000 (afterPurge 2000 ?m)
     = (Inr (Some \<lparr>UploadId = Some ''S1'', Parts = None\<rparr>),
        (afterPurge 2000 ?m)\<lparr>storage := Serialized (AList.update exKey (touch 2000 (exRecord (Some 0) (Some 1000))) ?u),
         trace := trace (afterPurge 2000 ?m) @
           [SetItem (Serialized (AList.update exKey (touch 2000 (exRecord (Some 0) (Some 1000))) ?u)),
            Sent (ListPartsCommand ''b'' ''k'' ''S1'')]\<rparr>)"
    using lookup_fresh [OF ap, of "in_file (exRequest ?c)" "in_bucket (exRequest ?c)" "in_key (exRequest ?c)"
        "exRecord (Some 0) (Some 1000)" 2000 ?c]
      fingerprint_exRequest [of ?c]
    by (simp add: oneHourInMs_def fingerprint_def)
  have run: "addTask (exRequest ?c) 2000 ?m = initMultiupload (exRequest ?c) 2000
     (subscribed 0 (fingerprint (exRequest ?c))
       ((afterPurge 2000 ?m)\<lparr>storage := Serialized (AList.update exKey (touch 2000 (exRecord (Some 0) (Some 1000))) ?u),
         trace := trace (afterPurge 2000 ?m) @
           [SetItem (Serialized (AList.update exKey (touch 2000 (exRecord (Some 0) (Some 1000))) ?u)),
            Sent (ListPartsCommand ''b'' ''k'' ''S1'')]\<rparr>))"
    by (rule addTask_fresh_path [OF nm _ look]) (simp_all add: isListPartsOutput_Some)
  show ?thesis
    unfolding run
    by (subst initMultiupload_ok [where uid = "''S2''"] | simp add: oneHourInMs_def commandsSent_gcEffects expiredEntries_def gcExpired_def)+
qed

subsection \<open>C7: a request over an empty registry\<close>

text \<open>
  C7: over an empty registry (nothing stored, or an empty object stored), a request with an
  emitter for which the client opens a session sends exactly one command, the
  create-multipart-upload for the destination, and leaves a registry of exactly one record,
  under the fingerprint of the request; the record holds the new session id, bucket, key,
  access level, both timestamps equal to now, and a file name if and only if the payload is
  a File. The task returned has no parts and is registered under the new session id.
\<close>

theorem empty_registry_opens_one_session:
  assumes "storage st = NoItem \<or> storage st = Serialized []"
    and "in_emitter input = Some em"
    and "createMultipartUpload (in_s3Client input) (in_bucket input, in_key input) = Inr uid"
  shows "\<exists>st'. addTask input now st = (Inr (freshTask input uid), st')
     \<and> commandsSent (newEffects st st') =
          [CreateMultipartUploadCommand (in_bucket input) (in_key input)]
     \<and> registry (storage st') =
          [(getFileKey (in_file input) (in_bucket input) (in_key input),
            \<lparr>accessLevel = in_accessLevel input, bucket = in_bucket input,
             fileName = file_name (in_file input), key = in_key input,
             lastTouched = Some now, timeStarted = Some now, uploadId = uid\<rparr>)]
     \<and> (file_name (in_file input) \<noteq> None) = isFile (in_file input)
     \<and> task_completedParts (freshTask input uid) = None
     \<and> getTask uid st' = Some (freshTask input uid)"
proof -
  have nm: "storage st \<noteq> Malformed" and reg: "registry (storage st) = []"
    using assms(1) by auto
  have ap: "storage (afterPurge now st) = Serialized []" using reg by simp
  have look: "getCachedUploadParts (in_s3Client input) (in_bucket input) (in_key input)
           (in_file input) now (afterPurge now st) = (Inr None, afterPurge now st)"
    by (rule lookup_absent [OF ap]) simp
  have run: "addTask input now st =
      initMultiupload input now (subscribed em (fingerprint input) (afterPurge now st))"
    by (rule addTask_fresh_path [OF nm assms(2) look]) simp
  show ?thesis
    unfolding run
    by (subst initMultiupload_ok [OF assms(3)])
       (simp_all add: reg getTask_def commandsSent_gcEffects expiredEntries_def freshRecord_def
          fingerprint_def isFile_file_name_ex freshTask_def)
qed

text \<open>The scenario's first request, at 7, over a storage holding nothing.\<close>

theorem empty_registry_opens_one_session_witness:
  "(storage (newManager NoItem) = NoItem \<or> storage (newManager NoItem) = Serialized [])
   \<and> in_emitter (exRequest exHealthy) = Some 0
   \<and> registry (storage (snd (addTask (exRequest exHealthy) 7 (newManager NoItem))))
       = [(exKey, exRecord (Some 7) (Some 7)\<lparr>uploadId := ''S2''\<rparr>)]"
proof -
  have h1: "storage (newManager NoItem) = NoItem \<or> storage (newManager NoItem) = Serialized []"
    by simp
  have h2: "in_emitter (exRequest exHealthy) = Some 0" by simp
  have h3: "createMultipartUpload (in_s3Client (exRequest exHealthy))
      (in_bucket (exRequest exHealthy), in_key (exRequest exHealthy)) = Inr ''S2''"
    by (simp add: exHealthy_def)
  from empty_registry_opens_one_session [OF h1 h2 h3, of 7]
  obtain st' where "addTask (exRequest exHealthy) 7 (newManager NoItem)
       = (Inr (freshTask (exRequest exHealthy) ''S2''), st')"
    and "registry (storage st') =
          [(getFileKey (in_file (exRequest exHealthy)) (in_bucket (exRequest exHealthy))
              (in_key (exRequest exHealthy)),
            \<lparr>accessLevel = in_accessLevel (exRequest exHealthy), bucket = in_bucket (exRequest exHealthy),
             fileName = file_name (in_file (exRequest exHealthy)), key = in_key (exRequest exHealthy),
             lastTouched = Some 7, timeStarted = Some 7, uploadId = ''S2''\<rparr>)]"
    by blast
  then show ?thesis
    using h1 h2 fingerprint_exRequest [of exHealthy]
    by (simp add: fingerprint_def exRecord_def exFile_def)
qed

subsection \<open>C5: a stale record\<close>

text \<open>
  C5, as amended: when the registry holds a record for the fingerprint of a request whose
  age by last-touched is above one hour, and an emitter is supplied, the lookup answers as
  for an absent record and does nothing else: it sends no command and stores nothing, so it
  neither aborts nor removes the record. The request then returns what it would return if
  the record were not in the registry. After the garbage-collection pass it sends exactly
  the create-multipart-upload. If the client opens a session, the new session's record is
  stored under the fingerprint, in the place of the stale one; if the client refuses, the
  stored registry is the one found, stale record included.
\<close>

theorem stale_record_starts_anew:
  assumes "storage st = Serialized u"
    and "map_of u (fingerprint input) = Some r"
    and "lastTouched r = Some t" and "oneHourInMs < now - t"
    and "in_emitter input = Some em"
  shows "getCachedUploadParts (in_s3Client input) (in_bucket input) (in_key input)
           (in_file input) now st = (Inr None, st)
     \<and> fst (addTask input now st) =
         fst (addTask input now (st\<lparr>storage := Serialized (AList.delete (fingerprint input) u)\<rparr>))
     \<and> (\<forall>uid. createMultipartUpload (in_s3Client input) (in_bucket input, in_key input) = Inr uid
          \<longrightarrow> (\<exists>st'. addTask input now st = (Inr (freshTask input uid), st')
                \<and> storage st' = Serialized
                     (AList.update (fingerprint input) (freshRecord input now uid) u)
                \<and> map_of (registry (storage st')) (fingerprint input)
                     = Some (freshRecord input now uid)
                \<and> newEffects st st' = gcEffects oneHourInMs now u @
                     [Sent (CreateMultipartUploadCommand (in_bucket input) (in_key input)),
                      SetItem (Serialized
                        (AList.update (fingerprint input) (freshRecord input now uid) u))]))
     \<and> (\<forall>e. createMultipartUpload (in_s3Client input) (in_bucket input, in_key input) = Inl e
          \<longrightarrow> (\<exists>st'. addTask input now st = (Inl e, st')
                \<and> storage st' = Serialized u
                \<and> newEffects st st' = gcEffects oneHourInMs now u @
                     [Sent (CreateMultipartUploadCommand (in_bucket input) (in_key input))]))"
proof -
  have nm: "storage st \<noteq> Malformed" using assms(1) by simp
  have fk: "map_of u (getFileKey (in_file input) (in_bucket input) (in_key input)) = Some r"
    using assms(2) by (simp add: fingerprint_def)
  have ap: "storage (afterPurge now st) = Serialized u" using assms(1) by simp
  have look0: "getCachedUploadParts (in_s3Client input) (in_bucket input) (in_key input)
           (in_file input) now st = (Inr None, st)"
    by (rule lookup_stale [OF assms(1) fk assms(3,4)])
  have look: "getCachedUploadParts (in_s3Client input) (in_bucket input) (in_key input)
           (in_file input) now (afterPurge now st) = (Inr None, afterPurge now st)"
    by (rule lookup_stale [OF ap fk assms(3,4)])
  have run: "addTask input now st =
      initMultiupload input now (subscribed em (fingerprint input) (afterPurge now st))"
    by (rule addTask_fresh_path [OF nm assms(5) look]) simp
  let ?d = "st\<lparr>storage := Serialized (AList.delete (fingerprint input) u)\<rparr>"
  have nmd: "storage ?d \<noteq> Malformed" by simp
  have apd: "storage (afterPurge now ?d) = Serialized (AList.delete (fingerprint input) u)" by simp
  have lookd: "getCachedUploadParts (in_s3Client input) (in_bucket input) (in_key input)
           (in_file input) now (afterPurge now ?d) = (Inr None, afterPurge now ?d)"
    by (rule lookup_absent [OF apd]) (simp add: map_of_delete_None [unfolded fingerprint_def] fingerprint_def)
  have rund: "addTask input now ?d =
      initMultiupload input now (subscribed em (fingerprint input) (afterPurge now ?d))"
    by (rule addTask_fresh_path [OF nmd assms(5) lookd]) simp
  have same: "fst (addTask input now st) = fst (addTask input now ?d)"
    unfolding run rund by (rule fst_initMultiupload) simp_all
  have ok: "\<forall>uid. createMultipartUpload (in_s3Client input) (in_bucket input, in_key input) = Inr uid
          \<longrightarrow> (\<exists>st'. addTask input now st = (Inr (freshTask input uid), st')
                \<and> storage st' = Serialized
                     (AList.update (fingerprint input) (freshRecord input now uid) u)
                \<and> map_of (registry (storage st')) (fingerprint input)
                     = Some (freshRecord input now uid)
                \<and> newEffects st st' = gcEffects oneHourInMs now u @
                     [Sent (CreateMultipartUploadCommand (in_bucket input) (in_key input)),
                      SetItem (Serialized
                        (AList.update (fingerprint input) (freshRecord input now uid) u))])"
  proof (intro allI impI)
    fix uid
    assume c: "createMultipartUpload (in_s3Client input) (in_bucket input, in_key input) = Inr uid"
    show "\<exists>st'. addTask input now st = (Inr (freshTask input uid), st')
                \<and> storage st' = Serialized
                     (AList.update (fingerprint input) (freshRecord input now uid) u)
                \<and> map_of (registry (storage st')) (fingerprint input)
                     = Some (freshRecord input now uid)
                \<and> newEffects st st' = gcEffects oneHourInMs now u @
                     [Sent (CreateMultipartUploadCommand (in_bucket input) (in_key input)),
                      SetItem (Serialized
                        (AList.update (fingerprint input) (freshRecord input now uid) u))]"
      unfolding run
      by (subst initMultiupload_ok [OF c]) (simp_all add: assms(1) AList.update_conv')
  qed
  have bad: "\<forall>e. createMultipartUpload (in_s3Client input) (in_bucket input, in_key input) = Inl e
          \<longrightarrow> (\<exists>st'. addTask input now st = (Inl e, st')
                \<and> storage st' = Serialized u
                \<and> newEffects st st' = gcEffects oneHourInMs now u @
                     [Sent (CreateMultipartUploadCommand (in_bucket input) (in_key input))])"
  proof (intro allI impI)
    fix e
    assume c: "createMultipartUpload (in_s3Client input) (in_bucket input, in_key input) = Inl e"
    show "\<exists>st'. addTask input now st = (Inl e, st')
                \<and> storage st' = Serialized u
                \<and> newEffects st st' = gcEffects oneHourInMs now u @
                     [Sent (CreateMultipartUploadCommand (in_bucket input) (in_key input))]"
      unfolding run
      by (subst initMultiupload_rejected [OF c]) (simp add: assms(1))
  qed
  from look0 same ok bad show ?thesis by blast
qed

text \<open>
  The scenario's third request: the record was touched at 0, the request comes at 3600001.
\<close>

theorem stale_record_starts_anew_witness:
  "storage (newManager (Serialized [(exKey, exRecord (Some 0) (Some 0))]))
     = Serialized [(exKey, exRecord (Some 0) (Some 0))]
   \<and> oneHourInMs < 3600001 - 0
   \<and> fst (addTask (exRequest exHealthy) 3600001
        (newManager (Serialized [(exKey, exRecord (Some 0) (Some 0))])))
     = Inr (freshTask (exRequest exHealthy) ''S2'')"
proof -
  let ?u = "[(exKey, exRecord (Some 0) (Some 0))]"
  let ?m = "newManager (Serialized ?u)"
  have h1: "storage ?m = Serialized ?u" by simp
  have h2: "map_of ?u (fingerprint (exRequest exHealthy)) = Some (exRecord (Some 0) (Some 0))"
    by simp
  have h3: "lastTouched (exRecord (Some 0) (Some 0)) = Some 0" by simp
  have h4: "oneHourInMs < 3600001 - 0" by (simp add: oneHourInMs_def)
  have h5: "in_emitter (exRequest exHealthy) = Some 0" by simp
  have c: "createMultipartUpload (in_s3Client (exRequest exHealthy))
      (in_bucket (exRequest exHealthy), in_key (exRequest exHealthy)) = Inr ''S2''"
    by (simp add: exHealthy_def)
  from stale_record_starts_anew [OF h1 h2 h3 h4 h5] c
  obtain st' where "addTask (exRequest exHealthy) 3600001 ?m
      = (Inr (freshTask (exRequest exHealthy) ''S2''), st')"
    by blast
  with h1 h4 show ?thesis by simp
qed

text \<open>
  C5 as stated fails in that the stale record is not left in the registry. After the
  scenario's third request the registry holds one record under the fingerprint, that of
  session S2; the record of session S1 is no longer in it.
\<close>

theorem stale_record_is_overwritten:
  "map_of [(exKey, exRecord (Some 0) (Some 0))] (fingerprint (exRequest exHealthy))
     = Some (exRecord (Some 0) (Some 0))
   \<and> lastTouched (exRecord (Some 0) (Some 0)) = Some 0
   \<and> oneHourInMs < 3600001 - 0
   \<and> registry (storage (snd (addTask (exRequest exHealthy) 3600001
        (newManager (Serialized [(exKey, exRecord (Some 0) (Some 0))])))))
     = [(exKey, freshRecord (exRequest exHealthy) 3600001 ''S2'')]
   \<and> uploadId (freshRecord (exRequest exHealthy) 3600001 ''S2'') = ''S2''
   \<and> uploadId (exRecord (Some 0) (Some 0)) = ''S1''
   \<and> (exKey, exRecord (Some 0) (Some 0)) \<notin> set (registry (storage (snd
        (addTask (exRequest exHealthy) 3600001
          (newManager (Serialized [(exKey, exRecord (Some 0) (Some 0))]))))))"
proof -
  let ?u = "[(exKey, exRecord (Some 0) (Some 0))]"
  let ?m = "newManager (Serialized ?u)"
  have nm: "storage ?m \<noteq> Malformed" by simp
  have ap: "storage (afterPurge 3600001 ?m) = Serialized ?u" by simp
  have h2: "map_of ?u (getFileKey (in_file (exRequest exHealthy)) (in_bucket (exRequest exHealthy))
      (in_key (exRequest exHealthy))) = Some (exRecord (Some 0) (Some 0))"
    using fingerprint_exRequest [of exHealthy] by (simp add: fingerprint_def)
  have h3: "lastTouched (exRecord (Some 0) (Some 0)) = Some 0" by simp
  have h4: "oneHourInMs < 3600001 - 0" by (simp add: oneHourInMs_def)
  have look: "getCachedUploadParts (in_s3Client (exRequest exHealthy)) (in_bucket (exRequest exHealthy))
      (in_key (exRequest exHealthy)) (in_file (exRequest exHealthy)) 3600001 (afterPurge 3600001 ?m)
      = (Inr None, afterPurge 3600001 ?m)"
    by (rule lookup_stale [OF ap h2 h3 h4])
  have run: "addTask (exRequest exHealthy) 3600001 ?m = initMultiupload (exRequest exHealthy) 3600001
      (subscribed 0 (fingerprint (exRequest exHealthy)) (afterPurge 3600001 ?m))"
    by (rule addTask_fresh_path [OF nm _ look]) simp_all
  have reg: "registry (storage (snd (addTask (exRequest exHealthy) 3600001 ?m)))
     = [(exKey, freshRecord (exRequest exHealthy) 3600001 ''S2'')]"
    unfolding run
    by (subst initMultiupload_ok [where uid = "''S2''"]) (simp_all add: exHealthy_def)
  have diff: "exRecord (Some 0) (Some 0) \<noteq> freshRecord (exRequest exHealthy) 3600001 ''S2''"
    by (simp add: exRecord_def freshRecord_def)
  show ?thesis
    unfolding reg using diff by (simp add: oneHourInMs_def freshRecord_def)
qed

subsection \<open>C8: the client refuses to open a session\<close>

text \<open>
  C8: when the client rejects create-multipart-upload, \<^verbatim>\<open>_initMultiupload\<close> returns that
  error, and all it has done is to send the command: it stores nothing and registers no
  task. A request that gets there (its stored item parses, it has an emitter, and the lookup
  has not come back with a list-parts output) is rejected with the same error. The storage
  is as the lookup left it, with the keys it had before the request; the task table is as
  before the request; the rejected command is the last effect of the request.
\<close>

theorem create_failure_is_fatal:
  assumes "createMultipartUpload (in_s3Client input) (in_bucket input, in_key input) = Inl e"
  shows "initMultiupload input now st =
           (Inl e, st\<lparr>trace := trace st @
              [Sent (CreateMultipartUploadCommand (in_bucket input) (in_key input))]\<rparr>)
     \<and> (storage st \<noteq> Malformed \<and> in_emitter input = Some em
        \<and> getCachedUploadParts (in_s3Client input) (in_bucket input) (in_key input)
            (in_file input) now (afterPurge now st) = (found, st2)
        \<and> \<not> isListPartsOutput (case found of Inl err \<Rightarrow> None | Inr r \<Rightarrow> r)
        \<longrightarrow> (\<exists>st'. addTask input now st = (Inl e, st')
              \<and> storage st' = storage st2
              \<and> map fst (registry (storage st')) = map fst (registry (storage st))
              \<and> uploadTasks st' = uploadTasks st
              \<and> trace st' = trace st2 @
                   [Sent (CreateMultipartUploadCommand (in_bucket input) (in_key input))]))"
proof (intro conjI impI)
  show "initMultiupload input now st =
           (Inl e, st\<lparr>trace := trace st @
              [Sent (CreateMultipartUploadCommand (in_bucket input) (in_key input))]\<rparr>)"
    by (rule initMultiupload_rejected [OF assms])
next
  assume h: "storage st \<noteq> Malformed \<and> in_emitter input = Some em
        \<and> getCachedUploadParts (in_s3Client input) (in_bucket input) (in_key input)
            (in_file input) now (afterPurge now st) = (found, st2)
        \<and> \<not> isListPartsOutput (case found of Inl err \<Rightarrow> None | Inr r \<Rightarrow> r)"
  then have nm: "storage st \<noteq> Malformed" and em: "in_emitter input = Some em"
    and look: "getCachedUploadParts (in_s3Client input) (in_bucket input) (in_key input)
            (in_file input) now (afterPurge now st) = (found, st2)"
    and miss: "\<not> isListPartsOutput (case found of Inl err \<Rightarrow> None | Inr r \<Rightarrow> r)"
    by simp_all
  have run: "addTask input now st =
      initMultiupload input now (subscribed em (fingerprint input) st2)"
    by (rule addTask_fresh_path [OF nm em look miss])
  have nmp: "storage (afterPurge now st) \<noteq> Malformed" by simp
  from lookup_preserves [OF nmp look]
  have keys: "map fst (registry (storage st2)) = map fst (registry (storage st))"
    and tasks: "uploadTasks st2 = uploadTasks st"
    by simp_all
  show "\<exists>st'. addTask input now st = (Inl e, st')
              \<and> storage st' = storage st2
              \<and> map fst (registry (storage st')) = map fst (registry (storage st))
              \<and> uploadTasks st' = uploadTasks st
              \<and> trace st' = trace st2 @
                   [Sent (CreateMultipartUploadCommand (in_bucket input) (in_key input))]"
    unfolding run initMultiupload_rejected [OF assms]
    by (simp add: keys tasks)
qed

text \<open>
  A request over a storage holding nothing, with a client that rejects every command.
\<close>

theorem create_failure_is_fatal_witness:
  "createMultipartUpload (in_s3Client (exRequest (exClient (Inl (RemoteError ''down'')) (Inl (RemoteError ''denied'')))))
      (in_bucket (exRequest (exClient (Inl (RemoteError ''down'')) (Inl (RemoteError ''denied'')))),
       in_key (exRequest (exClient (Inl (RemoteError ''down'')) (Inl (RemoteError ''denied'')))))
     = Inl (RemoteError ''denied'')
   \<and> fst (addTask (exRequest (exClient (Inl (RemoteError ''down'')) (Inl (RemoteError ''denied''))))
        9 (newManager NoItem)) = Inl (RemoteError ''denied'')
   \<and> registry (storage (snd (addTask (exRequest (exClient (Inl (RemoteError ''down'')) (Inl (RemoteError ''denied''))))
        9 (newManager NoItem)))) = []"
proof -
  let ?c = "exClient (Inl (RemoteError ''down'')) (Inl (RemoteError ''denied''))"
  let ?m = "newManager NoItem"
  have c: "createMultipartUpload (in_s3Client (exRequest ?c))
      (in_bucket (exRequest ?c), in_key (exRequest ?c)) = Inl (RemoteError ''denied'')"
    by simp
  have ap: "storage (afterPurge 9 ?m) = Serialized []" by simp
  have look: "getCachedUploadParts (in_s3Client (exRequest ?c)) (in_bucket (exRequest ?c))
      (in_key (exRequest ?c)) (in_file (exRequest ?c)) 9 (afterPurge 9 ?m)
      = (Inr None, afterPurge 9 ?m)"
    by (rule lookup_absent [OF ap]) simp
  have pre: "storage ?m \<noteq> Malformed \<and> in_emitter (exRequest ?c) = Some 0
        \<and> getCachedUploadParts (in_s3Client (exRequest ?c)) (in_bucket (exRequest ?c))
            (in_key (exRequest ?c)) (in_file (exRequest ?c)) 9 (afterPurge 9 ?m)
            = (Inr None, afterPurge 9 ?m)
        \<and> \<not> isListPartsOutput (case Inr None of Inl err \<Rightarrow> None | Inr r \<Rightarrow> r)"
    using look by simp
  from create_failure_is_fatal [OF c, of 9 ?m 0 "Inr None" "afterPurge 9 ?m"] pre
  obtain st' where "addTask (exRequest ?c) 9 ?m = (Inl (RemoteError ''denied''), st')"
    and "storage st' = storage (afterPurge 9 ?m)"
    by blast
  with c show ?thesis by simp
qed

subsection \<open>C9: records without a timestamp\<close>

text \<open>
  C9: a record without last-touched is fresh for the lookup whatever the time: the lookup
  gives it a last-touched of now, stores the registry and sends list-parts for its session.
  A record without session-start is never expired for a garbage-collection pass, whatever
  the time and the time-to-live: it is not among the entries whose abort the pass sends and
  whose deletion it leaves pending, and it is in the registry the pass stores.
\<close>

theorem missing_timestamp_never_expires:
  "(storage st = Serialized u \<and> map_of u (getFileKey file bkt k) = Some r \<and> lastTouched r = None
      \<longrightarrow> getCachedUploadParts s3 bkt k file now st =
            (map_sum id Some (listParts s3 (bkt, k, uploadId r)),
             st\<lparr>storage := Serialized
                  (AList.update (getFileKey file bkt k) (r\<lparr>lastTouched := Some now\<rparr>) u),
                trace := trace st @
                  [SetItem (Serialized
                     (AList.update (getFileKey file bkt k) (r\<lparr>lastTouched := Some now\<rparr>) u)),
                   Sent (ListPartsCommand bkt k (uploadId r))]\<rparr>))
   \<and> (storage st \<noteq> Malformed \<and> (kk, r') \<in> set (registry (storage st)) \<and> timeStarted r' = None
      \<longrightarrow> (\<exists>pending st'. purgeExpiredKeys s3 ttl_opt now st = (Inr pending, st')
            \<and> (kk, r') \<in> set (registry (storage st'))
            \<and> (kk, r') \<notin> set (expiredEntries (ttlOf ttl_opt) now (registry (storage st)))
            \<and> pending = map fst (expiredEntries (ttlOf ttl_opt) now (registry (storage st)))
            \<and> commandsSent (newEffects st st') =
                 map (\<lambda>p. abortOf (snd p))
                   (expiredEntries (ttlOf ttl_opt) now (registry (storage st)))))"
proof (intro conjI impI)
  assume "storage st = Serialized u \<and> map_of u (getFileKey file bkt k) = Some r \<and> lastTouched r = None"
  then have s: "storage st = Serialized u" and m: "map_of u (getFileKey file bkt k) = Some r"
    and l: "lastTouched r = None" by simp_all
  have fresh: "case lastTouched r of None \<Rightarrow> True | Some t \<Rightarrow> now - t \<le> oneHourInMs"
    using l by simp
  show "getCachedUploadParts s3 bkt k file now st =
            (map_sum id Some (listParts s3 (bkt, k, uploadId r)),
             st\<lparr>storage := Serialized
                  (AList.update (getFileKey file bkt k) (r\<lparr>lastTouched := Some now\<rparr>) u),
                trace := trace st @
                  [SetItem (Serialized
                     (AList.update (getFileKey file bkt k) (r\<lparr>lastTouched := Some now\<rparr>) u)),
                   Sent (ListPartsCommand bkt k (uploadId r))]\<rparr>)"
    using lookup_fresh [OF s m fresh, of s3] by (simp add: touch_def)
next
  assume "storage st \<noteq> Malformed \<and> (kk, r') \<in> set (registry (storage st)) \<and> timeStarted r' = None"
  then have nm: "storage st \<noteq> Malformed" and mem: "(kk, r') \<in> set (registry (storage st))"
    and ts: "timeStarted r' = None" by simp_all
  have notex: "(kk, r') \<notin> set (expiredEntries (ttlOf ttl_opt) now (registry (storage st)))"
    using ts by (simp add: expiredEntries_def gcExpired_def)
  show "\<exists>pending st'. purgeExpiredKeys s3 ttl_opt now st = (Inr pending, st')
            \<and> (kk, r') \<in> set (registry (storage st'))
            \<and> (kk, r') \<notin> set (expiredEntries (ttlOf ttl_opt) now (registry (storage st)))
            \<and> pending = map fst (expiredEntries (ttlOf ttl_opt) now (registry (storage st)))
            \<and> commandsSent (newEffects st st') =
                 map (\<lambda>p. abortOf (snd p))
                   (expiredEntries (ttlOf ttl_opt) now (registry (storage st)))"
    unfolding purgeExpiredKeys_parsed [OF nm]
    using mem notex by (simp add: commandsSent_gcEffects)
qed

text \<open>
  A record with neither timestamp, with the clock at 999999999999: the lookup sends
  list-parts for session S1, and the pass sends nothing and stores the registry as it is.
\<close>

theorem missing_timestamp_never_expires_witness:
  "commandsSent (trace (snd (getCachedUploadParts exHealthy ''b'' ''k'' exFile 999999999999
       (newManager (Serialized [(exKey, exRecord None None)])))))
     = [ListPartsCommand ''b'' ''k'' ''S1'']
   \<and> purgeExpiredKeys exHealthy None 999999999999 (newManager (Serialized [(exKey, exRecord None None)]))
     = (Inr [], (newManager (Serialized [(exKey, exRecord None None)]))
          \<lparr>trace := [SetItem (Serialized [(exKey, exRecord None None)])]\<rparr>)"
proof -
  let ?u = "[(exKey, exRecord None None)]"
  let ?m = "newManager (Serialized ?u)"
  have fk: "getFileKey exFile ''b'' ''k'' = exKey"
    using fingerprint_exRequest [of exHealthy] by (simp add: fingerprint_def)
  have a: "storage ?m = Serialized ?u \<and> map_of ?u (getFileKey exFile ''b'' ''k'') = Some (exRecord None None)
      \<and> lastTouched (exRecord None None) = None"
    by (simp add: fk)
  have b: "storage ?m \<noteq> Malformed \<and> (exKey, exRecord None None) \<in> set (registry (storage ?m))
      \<and> timeStarted (exRecord None None) = None"
    by simp
  note inst = missing_timestamp_never_expires [of ?m ?u exFile "''b''" "''k''" "exRecord None None"
      exHealthy 999999999999 exKey "exRecord None None" None]
  from inst a have l: "getCachedUploadParts exHealthy ''b'' ''k'' exFile 999999999999 ?m =
            (map_sum id Some (listParts exHealthy (''b'', ''k'', uploadId (exRecord None None))),
             ?m\<lparr>storage := Serialized
                  (AList.update (getFileKey exFile ''b'' ''k'') ((exRecord None None)\<lparr>lastTouched := Some 999999999999\<rparr>) ?u),
                trace := trace ?m @
                  [SetItem (Serialized
                     (AList.update (getFileKey exFile ''b'' ''k'') ((exRecord None None)\<lparr>lastTouched := Some 999999999999\<rparr>) ?u)),
                   Sent (ListPartsCommand ''b'' ''k'' (uploadId (exRecord None None)))]\<rparr>)"
    by blast
  from inst b obtain pending st' where
    p: "purgeExpiredKeys exHealthy None 999999999999 ?m = (Inr pending, st')"
    and "pending = map fst (expiredEntries (ttlOf None) 999999999999 (registry (storage ?m)))"
    by blast
  then have "pending = []" by (simp add: expiredEntries_def gcExpired_def)
  with p have "fst (purgeExpiredKeys exHealthy None 999999999999 ?m) = Inr []" by simp
  moreover have "snd (purgeExpiredKeys exHealthy None 999999999999 ?m)
      = ?m\<lparr>trace := [SetItem (Serialized ?u)]\<rparr>"
    by (simp add: purgeExpiredKeys_parsed gcEffects_def expiredEntries_def gcExpired_def newManager_def)
  ultimately have "purgeExpiredKeys exHealthy None 999999999999 ?m
     = (Inr [], ?m\<lparr>trace := [SetItem (Serialized ?u)]\<rparr>)"
    by (metis prod.collapse)
  then show ?thesis unfolding l by simp
qed

subsection \<open>C6: completion and abort\<close>

text \<open>
  C6 says that the completion or abort notification of a returned task, whatever the prior
  state of the registry, leaves no record under the task's fingerprint, and that the removal
  does not fail. In the code \<^verbatim>\<open>_removeKey\<close> parses the stored item without a guard, as the
  garbage-collection pass does. The scenario's first request returns a task on emitter 0;
  if the stored item is not JSON when that task notifies, the listener throws the
  SyntaxError of \<^verbatim>\<open>JSON.parse\<close> out of the emission, for the abort as for the completion, and
  the stored item stays as it is.
\<close>

theorem notification_on_malformed_item_fails:
  "fst (addTask (exRequest exHealthy) 7 (newManager NoItem))
     = Inr (freshTask (exRequest exHealthy) ''S2'')
   \<and> task_emitter (freshTask (exRequest exHealthy) ''S2'') = Some 0
   \<and> fingerprint (exRequest exHealthy) = exKey
   \<and> emit 0 ABORT ((snd (addTask (exRequest exHealthy) 7 (newManager NoItem)))\<lparr>storage := Malformed\<rparr>)
     = (Inl SyntaxError,
        (snd (addTask (exRequest exHealthy) 7 (newManager NoItem)))\<lparr>storage := Malformed\<rparr>)
   \<and> emit 0 UPLOAD_COMPLETE
        ((snd (addTask (exRequest exHealthy) 7 (newManager NoItem)))\<lparr>storage := Malformed\<rparr>)
     = (Inl SyntaxError,
        (snd (addTask (exRequest exHealthy) 7 (newManager NoItem)))\<lparr>storage := Malformed\<rparr>)
   \<and> removeKey exKey
        ((snd (addTask (exRequest exHealthy) 7 (newManager NoItem)))\<lparr>storage := Malformed\<rparr>)
     = (Inl SyntaxError,
        (snd (addTask (exRequest exHealthy) 7 (newManager NoItem)))\<lparr>storage := Malformed\<rparr>)"
proof -
  let ?req = "exRequest exHealthy"
  let ?st1 = "(subscribed 0 (fingerprint ?req) (newManager NoItem))
       \<lparr>storage := Serialized [(fingerprint ?req, freshRecord ?req 7 ''S2'')],
        uploadTasks := (uploadTasks (newManager NoItem))(''S2'' \<mapsto> freshTask ?req ''S2''),
        trace := trace (newManager NoItem) @
          [SetItem (Serialized []),
           Sent (CreateMultipartUploadCommand (in_bucket ?req) (in_key ?req)),
           SetItem (Serialized [(fingerprint ?req, freshRecord ?req 7 ''S2'')])]\<rparr>"
  have run: "addTask ?req 7 (newManager NoItem) = (Inr (freshTask ?req ''S2''), ?st1)"
    by (rule addTask_empty) simp_all
  have te: "task_emitter (freshTask ?req ''S2'') = Some 0" by (simp add: freshTask_def)
  have rk: "removeKey exKey (?st1\<lparr>storage := Malformed\<rparr>)
      = (Inl SyntaxError, ?st1\<lparr>storage := Malformed\<rparr>)"
    by (simp add: removeKey_def getItem_def)
  have ab: "emit 0 ABORT (?st1\<lparr>storage := Malformed\<rparr>)
      = (Inl SyntaxError, ?st1\<lparr>storage := Malformed\<rparr>)"
    using rk by (simp add: emit_def)
  have co: "emit 0 UPLOAD_COMPLETE (?st1\<lparr>storage := Malformed\<rparr>)
      = (Inl SyntaxError, ?st1\<lparr>storage := Malformed\<rparr>)"
    using rk by (simp add: emit_def)
  show ?thesis
    unfolding run using te rk ab co by simp
qed

subsection \<open>C10: the task table\<close>

text \<open>
  C10, as amended: no operation removes a session id from the task table. A session id for
  which \<^verbatim>\<open>getTask\<close> returns a task still has a task after any sequence of requests,
  lookups and notifications; in particular the session id of a task that a request has
  just returned and registered. A notification and a lookup leave the task table exactly
  as it is.
\<close>

theorem task_table_keeps_session_ids:
  "(getTask uid st \<noteq> None \<longrightarrow> getTask uid (performAll ops st) \<noteq> None)
   \<and> (addTask input now st = (Inr task, st') \<longrightarrow>
        getTask (task_uploadId task) st' = Some task
        \<and> getTask (task_uploadId task) (performAll ops st') \<noteq> None)
   \<and> uploadTasks (perform (Notify em ev) st) = uploadTasks st
   \<and> uploadTasks (perform (GetTask uid') st) = uploadTasks st"
proof (intro conjI impI)
  assume "getTask uid st \<noteq> None"
  then show "getTask uid (performAll ops st) \<noteq> None" by (rule performAll_keeps)
next
  assume a: "addTask input now st = (Inr task, st')"
  then show "getTask (task_uploadId task) st' = Some task" by (rule addTask_registers)
  then have "getTask (task_uploadId task) st' \<noteq> None" by simp
  then show "getTask (task_uploadId task) (performAll ops st') \<noteq> None" by (rule performAll_keeps)
next
  show "uploadTasks (perform (Notify em ev) st) = uploadTasks st"
    by (simp add: emit_def runListeners_tasks)
next
  show "uploadTasks (perform (GetTask uid') st) = uploadTasks st" by simp
qed

text \<open>
  The task of the scenario's first request is still found under S2 after its completion
  and abort notifications.
\<close>

theorem task_table_keeps_session_ids_witness:
  "fst (addTask (exRequest exHealthy) 7 (newManager NoItem)) = Inr (freshTask (exRequest exHealthy) ''S2'')
   \<and> getTask ''S2'' (performAll [Notify 0 UPLOAD_COMPLETE, Notify 0 ABORT, GetTask ''S2'']
        (snd (addTask (exRequest exHealthy) 7 (newManager NoItem)))) \<noteq> None"
proof -
  let ?req = "exRequest exHealthy"
  let ?task = "freshTask ?req ''S2''"
  obtain st1 where run: "addTask ?req 7 (newManager NoItem) = (Inr ?task, st1)"
    using addTask_empty [of "newManager NoItem" ?req 0 "''S2''" 7] by simp
  have "task_uploadId ?task = ''S2''" by (simp add: freshTask_def)
  with task_table_keeps_session_ids [of "''S2''" "newManager NoItem"
      "[Notify 0 UPLOAD_COMPLETE, Notify 0 ABORT, GetTask ''S2'']" ?req 7 ?task st1] run
  have "getTask ''S2'' (performAll [Notify 0 UPLOAD_COMPLETE, Notify 0 ABORT, GetTask ''S2''] st1) \<noteq> None"
    by simp
  with run show ?thesis by simp
qed

text \<open>
  C10 as stated fails in that the handle found under a session id need not stay the same. A
  first request opens session S1 and registers its task, which has no parts. A second
  request for the same file resumes S1 and registers, under S1, a new task pre-seeded with
  the reported part; \<^verbatim>\<open>getTask\<close> now returns that one.
\<close>

theorem resumed_session_replaces_task_handle:
  "fst (addTask (exRequest exResuming) 0 (newManager NoItem))
     = Inr (freshTask (exRequest exResuming) ''S1'')
   \<and> getTask ''S1'' (performAll [AddTask (exRequest exResuming) 0] (newManager NoItem))
     = Some (freshTask (exRequest exResuming) ''S1'')
   \<and> getTask ''S1'' (performAll [AddTask (exRequest exResuming) 0, AddTask (exRequest exResuming) 1000]
        (newManager NoItem))
     = Some (resumedTask (exRequest exResuming) ''S1'' [Part 1 5 ''e''])
   \<and> resumedTask (exRequest exResuming) ''S1'' [Part 1 5 ''e''] \<noteq> freshTask (exRequest exResuming) ''S1''"
proof -
  let ?req = "exRequest exResuming"
  let ?st1 = "(subscribed 0 (fingerprint ?req) (newManager NoItem))
       \<lparr>storage := Serialized [(fingerprint ?req, freshRecord ?req 0 ''S1'')],
        uploadTasks := (uploadTasks (newManager NoItem))(''S1'' \<mapsto> freshTask ?req ''S1''),
        trace := trace (newManager NoItem) @
          [SetItem (Serialized []),
           Sent (CreateMultipartUploadCommand (in_bucket ?req) (in_key ?req)),
           SetItem (Serialized [(fingerprint ?req, freshRecord ?req 0 ''S1'')])]\<rparr>"
  have first: "addTask ?req 0 (newManager NoItem) = (Inr (freshTask ?req ''S1''), ?st1)"
    by (rule addTask_empty) (simp_all add: exResuming_def)
  have s1: "storage ?st1 = Serialized [(fingerprint ?req, freshRecord ?req 0 ''S1'')]" by simp
  have m1: "map_of [(fingerprint ?req, freshRecord ?req 0 ''S1'')] (fingerprint ?req)
      = Some (freshRecord ?req 0 ''S1'')" by simp
  have f1: "case lastTouched (freshRecord ?req 0 ''S1'') of None \<Rightarrow> True
      | Some t \<Rightarrow> 1000 - t \<le> oneHourInMs"
    by (simp add: freshRecord_def oneHourInMs_def)
  have e1: "in_emitter ?req = Some 0" by simp
  have l1: "listParts (in_s3Client ?req) (in_bucket ?req, in_key ?req, uploadId (freshRecord ?req 0 ''S1''))
      = Inr \<lparr>UploadId = Some ''S1'', Parts = Some [Part 1 5 ''e'']\<rparr>"
    by (simp add: exResuming_def)
  have u1: "UploadId \<lparr>UploadId = Some ''S1'', Parts = Some [Part 1 5 ''e'']\<rparr> = Some ''S1''"
    and p1: "Parts \<lparr>UploadId = Some ''S1'', Parts = Some [Part 1 5 ''e'']\<rparr> = Some [Part 1 5 ''e'']"
    by simp_all
  note res = addTask_resume [OF s1 m1 f1 e1 l1 u1 p1]
  have table: "uploadTasks (snd (addTask ?req 1000 ?st1)) ''S1''
      = Some (resumedTask ?req ''S1'' [Part 1 5 ''e''])"
    unfolding res by simp
  have diff: "resumedTask ?req ''S1'' [Part 1 5 ''e''] \<noteq> freshTask ?req ''S1''"
  proof
    assume "resumedTask ?req ''S1'' [Part 1 5 ''e''] = freshTask ?req ''S1''"
    then have "task_completedParts (resumedTask ?req ''S1'' [Part 1 5 ''e''])
        = task_completedParts (freshTask ?req ''S1'')" by simp
    then show False by (simp add: resumedTask_def freshTask_def)
  qed
  show ?thesis
    using table diff by (simp add: first getTask_def)
qed

end
